theory Spec2Isabelle
  imports Complex_Main
begin

section \<open>Common types\<close>

text \<open>
  A Python exception is a value carrying its message; \<open>msg\<close> is \<open>str(e)\<close>.
  A call that may raise returns \<open>error + 'a\<close> (\<open>Inl\<close> the exception); a call made
  only for its effect returns \<open>error option\<close> (\<open>None\<close>: it went through).
\<close>

datatype error = Error string

fun msg :: "error \<Rightarrow> string" where
  "msg (Error s) = s"

section \<open>backend/utils/locks.py: GlobalPromptLock\<close>

text \<open>
  The lock object holds its configuration. The Postgres session it opens is the record
  \<open>pg_session\<close>: whether the connection and the cursor are open, whether the advisory
  lock is held by the session, whether the protected block of the \<open>with\<close> statement
  ran, and the warnings logged.
\<close>

record GlobalPromptLock =
  lock_key :: int
  retry_interval :: real
  timeout_seconds :: real

record pg_session =
  conn_open :: bool
  cursor_open :: bool
  lock_held :: bool
  body_ran :: bool
  warnings :: "string list"

text \<open>
  What the outside world does during one \<open>with lock.acquire(): body\<close>:
  whether \<open>psycopg2.connect\<close> raises; the clock at the start of the wait; for each
  round of the polling loop the outcome of \<open>pg_try_advisory_lock\<close> (raising, or the
  boolean fetched) paired with the clock read after it; whether the
  \<open>pg_advisory_unlock\<close> statement raises; whether the protected block raises.
  \<open>conn.cursor()\<close>, \<open>cursor.close()\<close> and \<open>conn.close()\<close> do no round trip
  and are total.
\<close>

record lock_world =
  lw_connect :: "error option"
  lw_start :: real
  lw_attempts :: "((error + bool) \<times> real) list"
  lw_release :: "error option"
  lw_body :: "error option"

definition fresh_session :: pg_session where
  "fresh_session =
     \<lparr>conn_open = False, cursor_open = False, lock_held = False, body_ran = False,
      warnings = []\<rparr>"

text \<open>
  \<open>_wait_for_lock\<close>: the \<open>while True\<close> loop, one list element per round. A round
  returns True when the lock was granted, False when the clock has passed the timeout,
  and otherwise sleeps and goes round again. The list is the fuel: \<open>None\<close> means the
  loop is still polling after the last scripted round.
\<close>

fun wait_for_lock ::
  "GlobalPromptLock \<Rightarrow> real \<Rightarrow> ((error + bool) \<times> real) list \<Rightarrow> (error + bool) option" where
  "wait_for_lock lk start [] = None"
| "wait_for_lock lk start ((r, t) # rest) =
     (case r of
        Inl e \<Rightarrow> Some (Inl e)
      | Inr acquired \<Rightarrow>
          if acquired then Some (Inr True)
          else if t - start > timeout_seconds lk then Some (Inr False)
          else wait_for_lock lk start rest)"

text \<open>A round that ends the loop: it raises, grants the lock, or is past the timeout.\<close>

fun decisive :: "GlobalPromptLock \<Rightarrow> real \<Rightarrow> (error + bool) \<times> real \<Rightarrow> bool" where
  "decisive lk start (Inl e, t) = True"
| "decisive lk start (Inr acquired, t) = (acquired \<or> t - start > timeout_seconds lk)"

text \<open>\<open>_release\<close>: run the unlock statement on the cursor.\<close>

definition release :: "lock_world \<Rightarrow> pg_session \<Rightarrow> error + pg_session" where
  "release w s =
     (case lw_release w of
        Some e \<Rightarrow> Inl e
      | None \<Rightarrow> Inr (s\<lparr>lock_held := False\<rparr>))"

text \<open>
  The \<open>finally\<close> block of \<open>acquire\<close>, entered with a cursor (\<open>cursor is not None\<close>):
  release when acquired, log a warning if that raises, close the cursor, close the
  connection.
\<close>

definition release_warning :: string where
  "release_warning = ''Failed to release prompt lock''"

definition finally_with_cursor :: "lock_world \<Rightarrow> bool \<Rightarrow> pg_session \<Rightarrow> pg_session" where
  "finally_with_cursor w acquired s =
     (let s1 = (if acquired
                then (case release w s of
                        Inl exc \<Rightarrow> s\<lparr>warnings := warnings s @ [release_warning]\<rparr>
                      | Inr s' \<Rightarrow> s')
                else s)
      in s1\<lparr>cursor_open := False, conn_open := False\<rparr>)"

definition timeout_error :: error where
  "timeout_error = Error ''Timed out acquiring global prompt lock''"

text \<open>
  \<open>acquire\<close> as the \<open>with\<close> statement runs it. The result is the exception that
  leaves the statement (\<open>None\<close>: normal completion) and the final session; the outer
  \<open>None\<close> is a wait that has not ended. When \<open>connect\<close> raises, \<open>conn\<close> and
  \<open>cursor\<close> are still \<open>None\<close> and the \<open>finally\<close> block does nothing.
\<close>

definition acquire :: "GlobalPromptLock \<Rightarrow> lock_world \<Rightarrow> (error option \<times> pg_session) option" where
  "acquire lk w =
     (case lw_connect w of
        Some e \<Rightarrow> Some (Some e, fresh_session)
      | None \<Rightarrow>
          (let s = fresh_session\<lparr>conn_open := True, cursor_open := True\<rparr> in
           case wait_for_lock lk (lw_start w) (lw_attempts w) of
             None \<Rightarrow> None
           | Some (Inl e) \<Rightarrow> Some (Some e, finally_with_cursor w False s)
           | Some (Inr acquired) \<Rightarrow>
               if \<not> acquired
               then Some (Some timeout_error, finally_with_cursor w False s)
               else Some (lw_body w,
                          finally_with_cursor w True (s\<lparr>lock_held := True, body_ran := True\<rparr>))))"

section \<open>Oracle replies\<close>

text \<open>
  The reasoning oracle is \<open>LLMClient.chat_completion\<close>; its reply is not computed by
  this repository, so every call site takes the reply from the world. A call either
  raises (\<open>CallFailed\<close>), or returns text that \<open>json.loads\<close> rejects or that is not
  an object of the shape the call site reads (\<open>Malformed\<close>; at every call site the
  parse and the first reads are in the same \<open>try\<close> block as the call), or returns an
  object (\<open>Reply\<close>). In an object each key the call site reads is absent, holds JSON
  null, or holds a value of the type the prompt asks for. \<open>jget\<close> is \<open>d.get(k)\<close>
  and \<open>jget_default\<close> is \<open>d.get(k, dflt)\<close>, which gives the default for an absent
  key only.
\<close>

datatype 'a oracle_reply = CallFailed error | Malformed error | Reply 'a

datatype 'a jfield = Absent | Null | Val 'a

fun jget :: "'a jfield \<Rightarrow> 'a option" where
  "jget Absent = None"
| "jget Null = None"
| "jget (Val v) = Some v"

fun jget_default :: "'a jfield \<Rightarrow> 'a \<Rightarrow> 'a option" where
  "jget_default Absent d = Some d"
| "jget_default Null d = None"
| "jget_default (Val v) d = Some v"

text \<open>Python truthiness of an optional boolean, string, integer.\<close>

fun truthy_bool :: "bool option \<Rightarrow> bool" where
  "truthy_bool None = False"
| "truthy_bool (Some b) = b"

fun truthy_str :: "string option \<Rightarrow> bool" where
  "truthy_str None = False"
| "truthy_str (Some s) = (s \<noteq> [])"

fun truthy_int :: "int option \<Rightarrow> bool" where
  "truthy_int None = False"
| "truthy_int (Some n) = (n \<noteq> 0)"

fun truthy_id :: "nat option \<Rightarrow> bool" where
  "truthy_id None = False"
| "truthy_id (Some n) = (n \<noteq> 0)"

text \<open>How an f-string renders \<open>d.get(k, '')\<close> of a string key: null prints as None.\<close>

fun fstring_of :: "string jfield \<Rightarrow> string" where
  "fstring_of Absent = []"
| "fstring_of Null = ''None''"
| "fstring_of (Val s) = s"

section \<open>backend/database: models and the ledger\<close>

text \<open>
  The pydantic models of \<open>models.py\<close> with the fields the engine reads or writes.
  Prices, confidence scores and account figures are Python floats or Decimals; they are
  modelled as reals, since the code only compares and multiplies them. Timestamps are
  seconds since the epoch. A stored row carries \<open>Some id\<close>.
\<close>

datatype action = BUY | SELL | HOLD

datatype proposal_status = PENDING | APPROVED | REJECTED | EXECUTED

record StockSnapshot =
  ss_ticker :: string
  ss_price :: real

record article =
  ar_title :: "string option"
  ar_timestamp :: "string option"
  ar_content_text :: "string option"

record analysis =
  an_is_interesting :: "bool jfield"
  an_reasoning :: "string jfield"
  an_confidence :: "real jfield"

record screening_context =
  sc_ticker :: string
  sc_current_price :: "real option"
  sc_recent_headlines_count :: nat
  sc_headlines :: "(string option \<times> string) list"

record AnalysisEvent =
  ae_id :: "nat option"
  ae_ticker :: string
  ae_event_type :: string
  ae_reasoning :: string
  ae_input_data :: screening_context
  ae_output_data :: analysis
  ae_agent_name :: string

record Debate =
  db_id :: "nat option"
  db_ticker :: string
  db_debate_type :: string
  db_transcript :: "(string \<times> string) list"
  db_bull_argument :: string
  db_bear_argument :: string
  db_final_consensus :: "string option"
  db_trader_agent_id :: "nat option"

record TradeProposal =
  tp_id :: "nat option"
  tp_ticker :: string
  tp_action :: action
  tp_quantity :: int
  tp_proposed_price :: "real option"
  tp_reasoning :: string
  tp_confidence_score :: "real option"
  tp_analysis_event_id :: "nat option"
  tp_debate_id :: "nat option"
  tp_status :: proposal_status

record ExecutedTrade =
  et_id :: "nat option"
  et_trade_proposal_id :: "nat option"
  et_ticker :: string
  et_action :: action
  et_quantity :: int
  et_execution_price :: real
  et_alpaca_order_id :: string
  et_portfolio_manager_reasoning :: "string option"
  et_executed_at :: "nat option"
  et_status :: string

text \<open>
  The ledger is the part of the Postgres database the engine writes: one list per
  table, in insertion order. Tables only the news scraper writes (articles) are read
  through the world.
\<close>

record ledger =
  stock_snapshots :: "StockSnapshot list"
  analysis_events :: "AnalysisEvent list"
  debates :: "Debate list"
  trade_proposals :: "TradeProposal list"
  executed_trades :: "ExecutedTrade list"

definition empty_ledger :: ledger where
  "empty_ledger =
     \<lparr>stock_snapshots = [], analysis_events = [], debates = [], trade_proposals = [],
      executed_trades = []\<rparr>"

text \<open>
  What the database does with one \<open>INSERT ... RETURNING id\<close>: the statement raises
  (\<open>_execute_query\<close> rolls back and re-raises), returns no row (the \<open>save_\<close>
  function returns \<open>None\<close>; nothing is stored), or stores the row and returns its id,
  the next serial number of the table.
\<close>

datatype insert_outcome = InsertRaises error | InsertNoRow | Inserted

definition save_stock_snapshot ::
  "insert_outcome \<Rightarrow> ledger \<Rightarrow> StockSnapshot \<Rightarrow> (error + nat option) \<times> ledger" where
  "save_stock_snapshot oc L s =
     (case oc of
        InsertRaises e \<Rightarrow> (Inl e, L)
      | InsertNoRow \<Rightarrow> (Inr None, L)
      | Inserted \<Rightarrow>
          (Inr (Some (Suc (length (stock_snapshots L)))),
           L\<lparr>stock_snapshots := stock_snapshots L @ [s]\<rparr>))"

definition save_analysis_event ::
  "insert_outcome \<Rightarrow> ledger \<Rightarrow> AnalysisEvent \<Rightarrow> (error + nat option) \<times> ledger" where
  "save_analysis_event oc L ev =
     (case oc of
        InsertRaises e \<Rightarrow> (Inl e, L)
      | InsertNoRow \<Rightarrow> (Inr None, L)
      | Inserted \<Rightarrow>
          (let i = Suc (length (analysis_events L)) in
           (Inr (Some i), L\<lparr>analysis_events := analysis_events L @ [ev\<lparr>ae_id := Some i\<rparr>]\<rparr>)))"

definition save_debate ::
  "insert_outcome \<Rightarrow> ledger \<Rightarrow> Debate \<Rightarrow> (error + nat option) \<times> ledger" where
  "save_debate oc L d =
     (case oc of
        InsertRaises e \<Rightarrow> (Inl e, L)
      | InsertNoRow \<Rightarrow> (Inr None, L)
      | Inserted \<Rightarrow>
          (let i = Suc (length (debates L)) in
           (Inr (Some i), L\<lparr>debates := debates L @ [d\<lparr>db_id := Some i\<rparr>]\<rparr>)))"

definition save_trade_proposal ::
  "insert_outcome \<Rightarrow> ledger \<Rightarrow> TradeProposal \<Rightarrow> (error + nat option) \<times> ledger" where
  "save_trade_proposal oc L p =
     (case oc of
        InsertRaises e \<Rightarrow> (Inl e, L)
      | InsertNoRow \<Rightarrow> (Inr None, L)
      | Inserted \<Rightarrow>
          (let i = Suc (length (trade_proposals L)) in
           (Inr (Some i), L\<lparr>trade_proposals := trade_proposals L @ [p\<lparr>tp_id := Some i\<rparr>]\<rparr>)))"

text \<open>
  \<open>save_executed_trade\<close>: the row's \<open>executed_at\<close> is not among the inserted
  columns; the database stamps it with its clock, \<open>now\<close>.
\<close>

definition save_executed_trade ::
  "insert_outcome \<Rightarrow> nat \<Rightarrow> ledger \<Rightarrow> ExecutedTrade \<Rightarrow> (error + nat option) \<times> ledger" where
  "save_executed_trade oc now L t =
     (case oc of
        InsertRaises e \<Rightarrow> (Inl e, L)
      | InsertNoRow \<Rightarrow> (Inr None, L)
      | Inserted \<Rightarrow>
          (let i = Suc (length (executed_trades L)) in
           (Inr (Some i),
            L\<lparr>executed_trades :=
                executed_trades L @ [t\<lparr>et_id := Some i, et_executed_at := Some now\<rparr>]\<rparr>)))"

text \<open>
  \<open>update_proposal_status\<close>: \<open>UPDATE trade_proposals SET status = .. WHERE id = ..\<close>.
  With \<open>proposal_id = None\<close> no row matches. The first argument says whether the
  statement raises.
\<close>

definition set_status :: "nat option \<Rightarrow> proposal_status \<Rightarrow> TradeProposal \<Rightarrow> TradeProposal" where
  "set_status pid st r = (if pid \<noteq> None \<and> tp_id r = pid then r\<lparr>tp_status := st\<rparr> else r)"

definition mark_status :: "nat option \<Rightarrow> proposal_status \<Rightarrow> ledger \<Rightarrow> ledger" where
  "mark_status pid st L = L\<lparr>trade_proposals := map (set_status pid st) (trade_proposals L)\<rparr>"

definition update_proposal_status ::
  "error option \<Rightarrow> ledger \<Rightarrow> nat option \<Rightarrow> proposal_status \<Rightarrow> error option \<times> ledger" where
  "update_proposal_status oc L pid st =
     (case oc of
        Some e \<Rightarrow> (Some e, L)
      | None \<Rightarrow> (None, mark_status pid st L))"

text \<open>The status column of the rows with a given id.\<close>

definition status_of :: "ledger \<Rightarrow> nat option \<Rightarrow> proposal_status list" where
  "status_of L pid = map tp_status (filter (\<lambda>r. pid \<noteq> None \<and> tp_id r = pid) (trade_proposals L))"

text \<open>
  \<open>has_traded_today\<close>: the count of executed trades stamped at or after midnight (UTC)
  of the current day is positive.
\<close>

definition today_start :: "nat \<Rightarrow> nat" where
  "today_start now = now - now mod 86400"

definition on_day_of :: "nat \<Rightarrow> ExecutedTrade \<Rightarrow> bool" where
  "on_day_of now t =
     (case et_executed_at t of None \<Rightarrow> False | Some stamp \<Rightarrow> today_start now \<le> stamp)"

definition trades_today :: "ledger \<Rightarrow> nat \<Rightarrow> ExecutedTrade list" where
  "trades_today L now = filter (on_day_of now) (executed_trades L)"

definition has_traded_today :: "error option \<Rightarrow> ledger \<Rightarrow> nat \<Rightarrow> error + bool" where
  "has_traded_today oc L now =
     (case oc of
        Some e \<Rightarrow> Inl e
      | None \<Rightarrow> Inr (length (trades_today L now) > 0))"

section \<open>backend/agents/trader_agent.py: TraderAgent.analyze_ticker\<close>

text \<open>
  The world of one call: the article rows read, the latest snapshot, what Finnhub
  returns when the snapshot is fetched (\<open>get_stock_snapshot\<close> and the construction of
  the \<open>StockSnapshot\<close>), the insert of that snapshot, the second read of the latest
  snapshot, the oracle's reply, and the insert of the analysis event.
\<close>

record analyze_world =
  aw_articles :: "error + article list"
  aw_snapshot :: "error + StockSnapshot option"
  aw_finnhub :: "error + StockSnapshot"
  aw_save_snapshot :: insert_outcome
  aw_snapshot_again :: "error + StockSnapshot option"
  aw_oracle :: "analysis oracle_reply"
  aw_save_event :: insert_outcome

record analysis_result =
  res_event_id :: "nat option"
  res_analysis :: analysis
  res_ticker :: string

text \<open>
  The dictionary sent to the oracle and stored as the event's \<open>input_data\<close>. The two
  \<open>price_change\<close> entries read columns that \<open>save_stock_snapshot\<close> never writes and
  are left out.
\<close>

definition headline :: "article \<Rightarrow> string option \<times> string" where
  "headline a = (ar_title a, (case ar_timestamp a of None \<Rightarrow> [] | Some t \<Rightarrow> t))"

definition screening_context_of ::
  "string \<Rightarrow> article list \<Rightarrow> StockSnapshot option \<Rightarrow> screening_context" where
  "screening_context_of ticker articles snapshot =
     \<lparr>sc_ticker = ticker,
      sc_current_price = map_option ss_price snapshot,
      sc_recent_headlines_count = length articles,
      sc_headlines = map headline (take 30 articles)\<rparr>"

text \<open>Lines 26 to 30: fetch, save and re-read the snapshot when there is none.\<close>

definition fetch_missing_snapshot ::
  "analyze_world \<Rightarrow> ledger \<Rightarrow> StockSnapshot option \<Rightarrow> (error + StockSnapshot option) \<times> ledger" where
  "fetch_missing_snapshot w L snapshot =
     (case snapshot of
        Some s \<Rightarrow> (Inr (Some s), L)
      | None \<Rightarrow>
          (case aw_finnhub w of
             Inl e \<Rightarrow> (Inl e, L)
           | Inr snapshot_data \<Rightarrow>
               (case save_stock_snapshot (aw_save_snapshot w) L snapshot_data of
                  (Inl e, L1) \<Rightarrow> (Inl e, L1)
                | (Inr snapshot_id, L1) \<Rightarrow>
                    (case aw_snapshot_again w of
                       Inl e \<Rightarrow> (Inl e, L1)
                     | Inr s \<Rightarrow> (Inr s, L1)))))"

text \<open>
  Lines 75 to 101, after the oracle has replied with an object: build the event
  (pydantic requires \<open>reasoning\<close> to be a string, so a null raises), save it, return
  the result dictionary.
\<close>

definition validation_error :: error where
  "validation_error = Error ''validation error''"

definition record_analysis ::
  "analyze_world \<Rightarrow> ledger \<Rightarrow> string \<Rightarrow> screening_context \<Rightarrow> analysis \<Rightarrow>
     (error + analysis_result) \<times> ledger" where
  "record_analysis w L ticker context an =
     (case jget_default (an_reasoning an) [] of
        None \<Rightarrow> (Inl validation_error, L)
      | Some reasoning \<Rightarrow>
          (case save_analysis_event (aw_save_event w) L
                  \<lparr>ae_id = None, ae_ticker = ticker, ae_event_type = ''ticker_analysis'',
                   ae_reasoning = reasoning, ae_input_data = context, ae_output_data = an,
                   ae_agent_name = ''trader_agent''\<rparr> of
             (Inl e, L1) \<Rightarrow> (Inl e, L1)
           | (Inr event_id, L1) \<Rightarrow>
               (Inr \<lparr>res_event_id = event_id, res_analysis = an, res_ticker = ticker\<rparr>, L1)))"

text \<open>The body of the \<open>try\<close> block, lines 22 to 101.\<close>

definition analyze_ticker_try ::
  "analyze_world \<Rightarrow> ledger \<Rightarrow> string \<Rightarrow> (error + analysis_result) \<times> ledger" where
  "analyze_ticker_try w L ticker =
     (case aw_articles w of
        Inl e \<Rightarrow> (Inl e, L)
      | Inr articles \<Rightarrow>
          (case aw_snapshot w of
             Inl e \<Rightarrow> (Inl e, L)
           | Inr snapshot0 \<Rightarrow>
               (case fetch_missing_snapshot w L snapshot0 of
                  (Inl e, L1) \<Rightarrow> (Inl e, L1)
                | (Inr snapshot, L1) \<Rightarrow>
                    (case aw_oracle w of
                       CallFailed e \<Rightarrow> (Inl e, L1)
                     | Malformed e \<Rightarrow> (Inl e, L1)
                     | Reply an \<Rightarrow>
                         record_analysis w L1 ticker
                           (screening_context_of ticker articles snapshot) an))))"

text \<open>
  \<open>analyze_ticker\<close>: the \<open>except Exception\<close> handler (lines 103 to 109) logs and
  returns a result with no event id; it saves nothing.
\<close>

definition failed_analysis :: "error \<Rightarrow> analysis" where
  "failed_analysis e =
     \<lparr>an_is_interesting = Val False, an_reasoning = Val (''Error: '' @ msg e),
      an_confidence = Absent\<rparr>"

definition analyze_ticker :: "analyze_world \<Rightarrow> ledger \<Rightarrow> string \<Rightarrow> analysis_result \<times> ledger" where
  "analyze_ticker w L ticker =
     (case analyze_ticker_try w L ticker of
        (Inr r, L1) \<Rightarrow> (r, L1)
      | (Inl e, L1) \<Rightarrow>
          (\<lparr>res_event_id = None, res_analysis = failed_analysis e, res_ticker = ticker\<rparr>, L1))"

section \<open>backend/agents/debate_agents.py: DebateOrchestrator.conduct_debate\<close>

text \<open>
  The three reads (articles, snapshot, recent trades) only feed the prompt, so the
  world says whether each raises. \<open>dw_bull\<close> and \<open>dw_bear\<close> are the two
  \<open>make_argument\<close> calls (serialising the context and calling the oracle),
  \<open>dw_consensus\<close> the third oracle call, \<open>dw_save_debate\<close> the insert.
\<close>

record debate_world =
  dw_articles :: "error option"
  dw_snapshot :: "error option"
  dw_recent_trades :: "error option"
  dw_bull :: "error + string"
  dw_bear :: "error + string"
  dw_consensus :: "error + string"
  dw_save_debate :: insert_outcome

text \<open>
  \<open>conduct_debate\<close>: one \<open>try\<close> block around everything; the handler logs and
  re-raises, so any failing step leaves the function as an exception.
\<close>

definition conduct_debate ::
  "debate_world \<Rightarrow> ledger \<Rightarrow> string \<Rightarrow> nat \<Rightarrow> (error + Debate) \<times> ledger" where
  "conduct_debate w L ticker trader_event_id =
     (case dw_articles w of
        Some e \<Rightarrow> (Inl e, L)
      | None \<Rightarrow>
     (case dw_snapshot w of
        Some e \<Rightarrow> (Inl e, L)
      | None \<Rightarrow>
     (case dw_recent_trades w of
        Some e \<Rightarrow> (Inl e, L)
      | None \<Rightarrow>
     (case dw_bull w of
        Inl e \<Rightarrow> (Inl e, L)
      | Inr bull_argument \<Rightarrow>
     (case dw_bear w of
        Inl e \<Rightarrow> (Inl e, L)
      | Inr bear_argument \<Rightarrow>
     (case dw_consensus w of
        Inl e \<Rightarrow> (Inl e, L)
      | Inr consensus \<Rightarrow>
          (let debate =
                 \<lparr>db_id = None, db_ticker = ticker, db_debate_type = ''bull_vs_bear'',
                  db_transcript = [(bull_argument, bear_argument)],
                  db_bull_argument = bull_argument, db_bear_argument = bear_argument,
                  db_final_consensus = Some consensus,
                  db_trader_agent_id = Some trader_event_id\<rparr>
           in case save_debate (dw_save_debate w) L debate of
                (Inl e, L1) \<Rightarrow> (Inl e, L1)
              | (Inr debate_id, L1) \<Rightarrow> (Inr (debate\<lparr>db_id := debate_id\<rparr>), L1))))))))"

section \<open>backend/agents/portfolio_manager_agent.py: PortfolioManagerAgent\<close>

text \<open>
  The broker's answers as \<open>AlpacaClient\<close> returns them: the account dictionary, the
  position dictionaries, and the order dictionary, whose \<open>price\<close> key is always
  present and holds \<open>None\<close> until the order has a fill price.
\<close>

record account =
  acc_buying_power :: real

record position =
  pos_symbol :: string
  pos_qty :: real
  pos_current_price :: real

record order =
  ord_id :: string
  ord_price :: "real option"

text \<open>The risk oracle's decision object.\<close>

record decision =
  dc_decision :: "string jfield"
  dc_reasoning :: "string jfield"
  dc_adjusted_quantity :: "int jfield"
  dc_position_to_sell :: "string jfield"
  dc_sell_quantity :: "int jfield"

subsection \<open>The risk gate\<close>

text \<open>
  The world of one review: the broker's account and positions, whether the read of the
  last week's trades raises (the rows only feed the prompt), the snapshot read of the
  price fallback, whether \<open>json.dumps(context)\<close> raises, the oracle's reply, and
  Python's \<open>str\<close> of a number (used in the rejection note).
\<close>

record review_world =
  rw_account :: "error + account"
  rw_positions :: "error + position list"
  rw_recent_trades :: "error option"
  rw_snapshot :: "error + StockSnapshot option"
  rw_json_dumps :: "error option"
  rw_oracle :: "decision oracle_reply"
  rw_str_of_num :: "real \<Rightarrow> string"

text \<open>Lines 27 to 31: the first position whose symbol is the proposal's ticker.\<close>

definition current_position_of :: "position list \<Rightarrow> string \<Rightarrow> position option" where
  "current_position_of positions ticker = find (\<lambda>pos. pos_symbol pos = ticker) positions"

text \<open>\<open>float(proposal.proposed_price) if proposal.proposed_price else 0.0\<close>.\<close>

definition price_or_zero :: "real option \<Rightarrow> real" where
  "price_or_zero pp = (case pp of None \<Rightarrow> 0 | Some v \<Rightarrow> v)"

text \<open>
  Lines 34 to 48: the estimate of the cash required and the flag
  \<open>needs_buying_power\<close>. Only a BUY of a positive quantity is estimated; the snapshot
  is read only when neither the proposal nor the current position gives a price.
\<close>

definition estimate_required_cash ::
  "review_world \<Rightarrow> account \<Rightarrow> position option \<Rightarrow> TradeProposal \<Rightarrow> error + (real \<times> bool)" where
  "estimate_required_cash w acct current_position p =
     (if tp_action p = BUY \<and> tp_quantity p > 0
      then
        (let price0 = price_or_zero (tp_proposed_price p);
             price1 = (if price0 = 0
                       then (case current_position of
                               None \<Rightarrow> price0
                             | Some pos \<Rightarrow> pos_current_price pos)
                       else price0)
         in case (if price1 = 0
                  then (case rw_snapshot w of
                          Inl e \<Rightarrow> Inl e
                        | Inr None \<Rightarrow> Inr price1
                        | Inr (Some s) \<Rightarrow> Inr (ss_price s))
                  else Inr price1) of
              Inl e \<Rightarrow> Inl e
            | Inr price \<Rightarrow>
                (let required_cash = price * real_of_int (tp_quantity p)
                 in Inr (required_cash, required_cash > acc_buying_power acct)))
      else Inr (0, False))"

text \<open>
  Lines 113 to 123: the confidence floor of the risk gate.
  \<open>proposal.confidence_score or 0\<close> reads a missing score as 0.
\<close>

definition confidence_or_zero :: "TradeProposal \<Rightarrow> real" where
  "confidence_or_zero p = (case tp_confidence_score p of None \<Rightarrow> 0 | Some c \<Rightarrow> c)"

definition review_rejection_note :: "(real \<Rightarrow> string) \<Rightarrow> real \<Rightarrow> string" where
  "review_rejection_note str c = '' [Rejected: Confidence '' @ str c @ '' < 70 required]''"

definition enforce_floor :: "review_world \<Rightarrow> TradeProposal \<Rightarrow> decision \<Rightarrow> decision" where
  "enforce_floor w p d =
     (let confidence_score = confidence_or_zero p in
      if confidence_score < 70 \<and> jget (dc_decision d) = Some ''APPROVE''
      then d\<lparr>dc_decision := Val ''REJECT'',
              dc_reasoning :=
                Val (fstring_of (dc_reasoning d)
                     @ review_rejection_note (rw_str_of_num w) confidence_score)\<rparr>
      else d)"

text \<open>The body of the \<open>try\<close> block, lines 23 to 135.\<close>

definition review_proposal_try :: "review_world \<Rightarrow> TradeProposal \<Rightarrow> error + decision" where
  "review_proposal_try w p =
     (case rw_account w of
        Inl e \<Rightarrow> Inl e
      | Inr acct \<Rightarrow>
     (case rw_positions w of
        Inl e \<Rightarrow> Inl e
      | Inr positions \<Rightarrow>
     (case rw_recent_trades w of
        Some e \<Rightarrow> Inl e
      | None \<Rightarrow>
     (case estimate_required_cash w acct (current_position_of positions (tp_ticker p)) p of
        Inl e \<Rightarrow> Inl e
      | Inr cash \<Rightarrow>
     (case rw_json_dumps w of
        Some e \<Rightarrow> Inl e
      | None \<Rightarrow>
     (case rw_oracle w of
        CallFailed e \<Rightarrow> Inl e
      | Malformed e \<Rightarrow> Inl e
      | Reply d \<Rightarrow> Inr (enforce_floor w p d)))))))"

text \<open>
  \<open>review_proposal\<close>: the handler (lines 137 to 142) turns any exception of the body
  into a REJECT decision. The result type keeps an error branch, as for any Python
  function; that the branch is never taken is a theorem below.
\<close>

definition review_failed :: "error \<Rightarrow> decision" where
  "review_failed e =
     \<lparr>dc_decision = Val ''REJECT'', dc_reasoning = Val (''Review failed: '' @ msg e),
      dc_adjusted_quantity = Absent, dc_position_to_sell = Absent, dc_sell_quantity = Absent\<rparr>"

definition review_proposal :: "review_world \<Rightarrow> TradeProposal \<Rightarrow> error + decision" where
  "review_proposal w p =
     (case review_proposal_try w p of
        Inr d \<Rightarrow> Inr d
      | Inl e \<Rightarrow> Inr (review_failed e))"

subsection \<open>The confirmation call\<close>

text \<open>
  \<open>_evaluate_position_to_sell\<close>, the second, narrower oracle call. The world:
  whether one of the per-position reads (snapshot, recent articles) raises, whether
  serialising the context raises, and the oracle's reply. The reads and the
  serialisation are outside the function's \<open>try\<close> block, so their exceptions
  leave the function; a failing oracle call or a malformed reply is caught and gives
  \<open>None\<close>.
\<close>

record evaluation =
  ev_should_rebalance :: "bool jfield"
  ev_reasoning :: "string jfield"
  ev_position_to_sell :: "string jfield"
  ev_sell_quantity :: "int jfield"

record evaluate_world =
  ew_position_reads :: "error option"
  ew_json_dumps :: "error option"
  ew_oracle :: "evaluation oracle_reply"

record rebalance =
  rb_ticker :: string
  rb_quantity :: "int option"
  rb_reasoning :: "string option"

definition evaluate_position_to_sell ::
  "evaluate_world \<Rightarrow> TradeProposal \<Rightarrow> position list \<Rightarrow> real \<Rightarrow> error + rebalance option" where
  "evaluate_position_to_sell w p positions required_cash =
     (if positions = [] then Inr None
      else if filter (\<lambda>pos. pos_symbol pos \<noteq> tp_ticker p) positions = [] then Inr None
      else
        (case ew_position_reads w of
           Some e \<Rightarrow> Inl e
         | None \<Rightarrow>
             (case ew_json_dumps w of
                Some e \<Rightarrow> Inl e
              | None \<Rightarrow>
                  (case ew_oracle w of
                     CallFailed e \<Rightarrow> Inr None
                   | Malformed e \<Rightarrow> Inr None
                   | Reply ev \<Rightarrow>
                       (case jget (ev_position_to_sell ev) of
                          None \<Rightarrow> Inr None
                        | Some target \<Rightarrow>
                            if truthy_bool (jget (ev_should_rebalance ev)) \<and> target \<noteq> []
                            then Inr (Some \<lparr>rb_ticker = target,
                                             rb_quantity = jget_default (ev_sell_quantity ev) 0,
                                             rb_reasoning = jget_default (ev_reasoning ev) []\<rparr>)
                            else Inr None)))))"

subsection \<open>Execution\<close>

text \<open>
  \<open>execute_trade\<close>. The world of one execution: the outcome of the status update
  made on the normal path (at most one is made: lines 248, 279, 338 or 367) and of the
  one in the handler (line 382); the broker's account, the snapshot read of the price
  fallback, the broker's positions, the world of the confirmation call, the outcome of
  the rebalancing sell and of the main order, the insert of the executed trade, and the
  database clock.
  Besides the ledger the function acts on the broker and sleeps; these effects are
  returned in the order they happen. A \<open>Submit\<close> is a call of
  \<open>alpaca.submit_order\<close> (symbol, quantity, side), whether or not it returns.
\<close>

record exec_world =
  xw_update_status :: "error option"
  xw_update_status_handler :: "error option"
  xw_account :: "error + account"
  xw_snapshot :: "error + StockSnapshot option"
  xw_positions :: "error + position list"
  xw_evaluate :: evaluate_world
  xw_sell_order :: "error + order"
  xw_order :: "error + order"
  xw_save_trade :: insert_outcome
  xw_now :: nat

datatype effect = Submit string "int option" string | Sleep nat

fun side_of :: "action \<Rightarrow> string" where
  "side_of BUY = ''BUY''"
| "side_of SELL = ''SELL''"
| "side_of HOLD = ''HOLD''"

text \<open>
  Lines 293 to 307 (and again 317 to 330): submit the market SELL for the flagged
  position, then sleep two seconds. \<open>True\<close> means: go on to the main trade.
\<close>

definition sell_to_rebalance ::
  "exec_world \<Rightarrow> string \<Rightarrow> int \<Rightarrow> (error + bool) \<times> effect list" where
  "sell_to_rebalance w position_to_sell sell_quantity =
     (case xw_sell_order w of
        Inl e \<Rightarrow> (Inl e, [Submit position_to_sell (Some sell_quantity) ''SELL''])
      | Inr sell_order \<Rightarrow>
          (Inr True, [Submit position_to_sell (Some sell_quantity) ''SELL'', Sleep 2]))"

text \<open>
  A \<open>return None\<close> after marking the proposal REJECTED (lines 279 and 338); the
  update may raise. \<open>False\<close> means: the function has returned \<open>None\<close>.
\<close>

definition reject_and_return ::
  "exec_world \<Rightarrow> ledger \<Rightarrow> TradeProposal \<Rightarrow> (error + bool) \<times> ledger \<times> effect list" where
  "reject_and_return w L p =
     (case update_proposal_status (xw_update_status w) L (tp_id p) REJECTED of
        (Some e, L1) \<Rightarrow> (Inl e, L1, [])
      | (None, L1) \<Rightarrow> (Inr False, L1, []))"

text \<open>
  Lines 269 to 339, entered when the cash required exceeds the live buying power: check
  that the position still exists, ask the oracle again, and sell when it names the same
  position or gives no recommendation; reject when it names another one.
\<close>

definition confirm_and_sell ::
  "exec_world \<Rightarrow> ledger \<Rightarrow> TradeProposal \<Rightarrow> string \<Rightarrow> int \<Rightarrow> real \<Rightarrow>
     (error + bool) \<times> ledger \<times> effect list" where
  "confirm_and_sell w L p position_to_sell sell_quantity required_cash =
     (case xw_positions w of
        Inl e \<Rightarrow> (Inl e, L, [])
      | Inr positions \<Rightarrow>
          if \<not> list_ex (\<lambda>pos. pos_symbol pos = position_to_sell) positions
          then reject_and_return w L p
          else
            (case evaluate_position_to_sell (xw_evaluate w) p positions required_cash of
               Inl e \<Rightarrow> (Inl e, L, [])
             | Inr rebalance_decision \<Rightarrow>
                 (case rebalance_decision of
                    Some rb \<Rightarrow>
                      if rb_ticker rb = position_to_sell
                      then (case sell_to_rebalance w position_to_sell sell_quantity of
                              (r, fx) \<Rightarrow> (r, L, fx))
                      else reject_and_return w L p
                  | None \<Rightarrow>
                      (case sell_to_rebalance w position_to_sell sell_quantity of
                         (r, fx) \<Rightarrow> (r, L, fx)))))"

text \<open>
  Lines 260 to 264: the price used to re-check the buying power, the proposal's own
  or, when that is missing or zero, the latest snapshot's.
\<close>

definition live_price :: "exec_world \<Rightarrow> TradeProposal \<Rightarrow> error + real" where
  "live_price w p =
     (let price0 = price_or_zero (tp_proposed_price p) in
      if price0 = 0
      then (case xw_snapshot w of
              Inl e \<Rightarrow> Inl e
            | Inr None \<Rightarrow> Inr price0
            | Inr (Some s) \<Rightarrow> Inr (ss_price s))
      else Inr price0)"

text \<open>
  Lines 254 to 339: the rebalancing step. It is entered only for a BUY whose decision
  names a position to sell and a non-zero quantity.
\<close>

definition rebalance_step ::
  "exec_world \<Rightarrow> ledger \<Rightarrow> TradeProposal \<Rightarrow> decision \<Rightarrow>
     (error + bool) \<times> ledger \<times> effect list" where
  "rebalance_step w L p d =
     (case (jget (dc_position_to_sell d), jget (dc_sell_quantity d)) of
        (Some position_to_sell, Some sell_quantity) \<Rightarrow>
          if position_to_sell \<noteq> [] \<and> sell_quantity \<noteq> 0 \<and> tp_action p = BUY
          then
            (case xw_account w of
               Inl e \<Rightarrow> (Inl e, L, [])
             | Inr acct \<Rightarrow>
                 (case live_price w p of
                    Inl e \<Rightarrow> (Inl e, L, [])
                  | Inr price \<Rightarrow>
                      (let required_cash = price * real_of_int (tp_quantity p) in
                       if required_cash > acc_buying_power acct
                       then confirm_and_sell w L p position_to_sell sell_quantity required_cash
                       else (Inr True, L, []))))
          else (Inr True, L, [])
      | _ \<Rightarrow> (Inr True, L, []))"

text \<open>
  Lines 351 to 364: the execution price and the \<open>ExecutedTrade\<close> object.
  \<open>Decimal(str(order.get("price", 0)))\<close> raises when the order has no fill price
  (the key is present and holds \<open>None\<close>). The model class accepts only BUY or SELL as
  action and an integer as quantity.
\<close>

definition invalid_operation :: error where
  "invalid_operation = Error ''decimal.InvalidOperation''"

definition build_executed_trade ::
  "TradeProposal \<Rightarrow> decision \<Rightarrow> int option \<Rightarrow> order \<Rightarrow> error + ExecutedTrade" where
  "build_executed_trade p d quantity ord =
     (case ord_price ord of
        None \<Rightarrow> Inl invalid_operation
      | Some price \<Rightarrow>
          (let execution_price =
                 (if price = 0 \<and> price_or_zero (tp_proposed_price p) \<noteq> 0
                  then price_or_zero (tp_proposed_price p) else price)
           in if tp_action p = HOLD then Inl validation_error
              else (case quantity of
                      None \<Rightarrow> Inl validation_error
                    | Some q \<Rightarrow>
                        Inr \<lparr>et_id = None, et_trade_proposal_id = tp_id p,
                             et_ticker = tp_ticker p, et_action = tp_action p,
                             et_quantity = q, et_execution_price = execution_price,
                             et_alpaca_order_id = ord_id ord,
                             et_portfolio_manager_reasoning = jget (dc_reasoning d),
                             et_executed_at = None, et_status = ''FILLED''\<rparr>)))"

text \<open>
  Lines 341 to 378: submit the main order, record the trade, mark the proposal
  EXECUTED.
\<close>

definition main_trade ::
  "exec_world \<Rightarrow> ledger \<Rightarrow> TradeProposal \<Rightarrow> decision \<Rightarrow>
     (error + ExecutedTrade option) \<times> ledger \<times> effect list" where
  "main_trade w L p d =
     (let quantity = jget_default (dc_adjusted_quantity d) (tp_quantity p);
          fx = [Submit (tp_ticker p) quantity (side_of (tp_action p))]
      in case xw_order w of
           Inl e \<Rightarrow> (Inl e, L, fx)
         | Inr ord \<Rightarrow>
             (case build_executed_trade p d quantity ord of
                Inl e \<Rightarrow> (Inl e, L, fx)
              | Inr executed_trade \<Rightarrow>
                  (case save_executed_trade (xw_save_trade w) (xw_now w) L executed_trade of
                     (Inl e, L1) \<Rightarrow> (Inl e, L1, fx)
                   | (Inr trade_id, L1) \<Rightarrow>
                       (case update_proposal_status (xw_update_status w) L1 (tp_id p) EXECUTED of
                          (Some e, L2) \<Rightarrow> (Inl e, L2, fx)
                        | (None, L2) \<Rightarrow>
                            (Inr (Some (executed_trade\<lparr>et_id := trade_id\<rparr>)), L2, fx)))))"

text \<open>The body of the \<open>try\<close> block, lines 253 to 378.\<close>

definition execute_trade_try ::
  "exec_world \<Rightarrow> ledger \<Rightarrow> TradeProposal \<Rightarrow> decision \<Rightarrow>
     (error + ExecutedTrade option) \<times> ledger \<times> effect list" where
  "execute_trade_try w L p d =
     (case rebalance_step w L p d of
        (Inl e, L1, fx) \<Rightarrow> (Inl e, L1, fx)
      | (Inr go_on, L1, fx) \<Rightarrow>
          if \<not> go_on then (Inr None, L1, fx)
          else (case main_trade w L1 p d of
                  (r, L2, fx2) \<Rightarrow> (r, L2, fx @ fx2)))"

text \<open>
  \<open>execute_trade\<close>: a decision other than APPROVE marks the proposal REJECTED (outside
  the \<open>try\<close>, so a raising update leaves the function). The handler (lines 380 to
  383) logs the exception, marks the proposal REJECTED and returns \<open>None\<close>; only an
  exception of that last update leaves the function.
\<close>

definition execute_trade ::
  "exec_world \<Rightarrow> ledger \<Rightarrow> TradeProposal \<Rightarrow> decision \<Rightarrow>
     (error + ExecutedTrade option) \<times> ledger \<times> effect list" where
  "execute_trade w L p d =
     (if jget (dc_decision d) \<noteq> Some ''APPROVE''
      then (case update_proposal_status (xw_update_status w) L (tp_id p) REJECTED of
              (Some e, L1) \<Rightarrow> (Inl e, L1, [])
            | (None, L1) \<Rightarrow> (Inr None, L1, []))
      else (case execute_trade_try w L p d of
              (Inr r, L1, fx) \<Rightarrow> (Inr r, L1, fx)
            | (Inl e, L1, fx) \<Rightarrow>
                (case update_proposal_status (xw_update_status_handler w) L1 (tp_id p) REJECTED of
                   (Some e', L2) \<Rightarrow> (Inl e', L2, fx)
                 | (None, L2) \<Rightarrow> (Inr None, L2, fx))))"

section \<open>backend/graph/trading_graph.py: TradingGraph\<close>

text \<open>
  \<open>TradingState\<close>, the dictionary the nodes pass along. Every key is present from
  the start (\<open>run\<close> builds the initial state with all of them), so a key that was
  never set holds \<open>None\<close>.
\<close>

record debate_result =
  dr_debate_id :: "nat option"
  dr_bull_argument :: string
  dr_bear_argument :: string
  dr_consensus :: string

record executed_summary =
  xs_id :: "nat option"
  xs_ticker :: string
  xs_action :: action
  xs_quantity :: int
  xs_price :: real

record TradingState =
  st_ticker :: "string option"
  st_analysis_result :: "analysis_result option"
  st_needs_debate :: "bool option"
  st_debate_result :: "debate_result option"
  st_trade_proposal :: "TradeProposal option"
  st_portfolio_decision :: "decision option"
  st_executed_trade :: "executed_summary option"
  st_error :: "string option"

definition attribute_error :: error where
  "attribute_error = Error ''AttributeError''"

text \<open>
  The nodes after the first one read \<open>state["ticker"]\<close> without a check; they run
  only after the first node has found it non-empty.
\<close>

definition ticker_of :: "TradingState \<Rightarrow> string" where
  "ticker_of st = (case st_ticker st of None \<Rightarrow> [] | Some t \<Rightarrow> t)"

subsection \<open>Screening node\<close>

text \<open>
  \<open>_analyze_ticker\<close>. \<open>TraderAgent.analyze_ticker\<close> catches its own exceptions,
  so the node's handler has nothing to catch.
\<close>

definition graph_analyze_ticker ::
  "analyze_world \<Rightarrow> ledger \<Rightarrow> TradingState \<Rightarrow> TradingState \<times> ledger" where
  "graph_analyze_ticker w L st =
     (if \<not> truthy_str (st_ticker st)
      then (st\<lparr>st_error := Some ''No ticker provided''\<rparr>, L)
      else (case analyze_ticker w L (ticker_of st) of
              (result, L1) \<Rightarrow>
                (st\<lparr>st_analysis_result := Some result,
                    st_needs_debate :=
                      jget_default (an_is_interesting (res_analysis result)) False\<rparr>, L1)))"

text \<open>
  \<open>_should_debate\<close>: \<open>True\<close> is the edge to the debate, \<open>False\<close> the edge to the
  end. The function is outside every \<open>try\<close>; reading the analysis of a state with
  no analysis result raises.
\<close>

definition should_debate :: "TradingState \<Rightarrow> error + bool" where
  "should_debate st =
     (if truthy_str (st_error st) then Inr False
      else (case st_analysis_result st of
              None \<Rightarrow> Inl attribute_error
            | Some result \<Rightarrow>
                Inr (truthy_bool (jget_default (an_is_interesting (res_analysis result)) False))))"

subsection \<open>Debate node\<close>

text \<open>\<open>_conduct_debate\<close>.\<close>

definition graph_conduct_debate ::
  "debate_world \<Rightarrow> ledger \<Rightarrow> TradingState \<Rightarrow> TradingState \<times> ledger" where
  "graph_conduct_debate w L st =
     (let event_id = (case st_analysis_result st of None \<Rightarrow> None | Some r \<Rightarrow> res_event_id r) in
      case event_id of
        None \<Rightarrow> (st\<lparr>st_error := Some ''No analysis event ID available''\<rparr>, L)
      | Some eid \<Rightarrow>
          if eid = 0 then (st\<lparr>st_error := Some ''No analysis event ID available''\<rparr>, L)
          else
            (case conduct_debate w L (ticker_of st) eid of
               (Inl e, L1) \<Rightarrow> (st\<lparr>st_error := Some (msg e)\<rparr>, L1)
             | (Inr debate, L1) \<Rightarrow>
                 if truthy_id (db_id debate)
                 then (st\<lparr>st_debate_result :=
                            Some \<lparr>dr_debate_id = db_id debate,
                                  dr_bull_argument = db_bull_argument debate,
                                  dr_bear_argument = db_bear_argument debate,
                                  dr_consensus =
                                    (case db_final_consensus debate of
                                       None \<Rightarrow> [] | Some c \<Rightarrow> c)\<rparr>\<rparr>, L1)
                 else (st\<lparr>st_error := Some ''Debate returned no result''\<rparr>, L1)))"

subsection \<open>Proposal node\<close>

text \<open>
  \<open>_create_proposal_from_debate\<close>. The world: the latest snapshot, Finnhub's answer
  when it has to be fetched, the insert of the fetched snapshot, the second read, the
  oracle's reply, Python's \<open>str\<close> of a number (used in the rejection annotation),
  and the insert of the proposal.
\<close>

record proposal_data =
  pd_action :: "string jfield"
  pd_quantity :: "int jfield"
  pd_reasoning :: "string jfield"
  pd_confidence_score :: "real jfield"

record proposal_world =
  pw_snapshot :: "error + StockSnapshot option"
  pw_finnhub :: "error + StockSnapshot"
  pw_save_snapshot :: insert_outcome
  pw_snapshot_again :: "error + StockSnapshot option"
  pw_oracle :: "proposal_data oracle_reply"
  pw_str_of_num :: "real \<Rightarrow> string"
  pw_save_proposal :: insert_outcome

text \<open>
  Lines 172 to 187: the snapshot, fetched and saved when there is none. \<open>Inl\<close> is the
  text put into \<open>state["error"]\<close>. The first read is guarded by the node's outer
  handler, the fetch by the inner one.
\<close>

definition resolve_snapshot ::
  "proposal_world \<Rightarrow> ledger \<Rightarrow> (string + StockSnapshot) \<times> ledger" where
  "resolve_snapshot w L =
     (case pw_snapshot w of
        Inl e \<Rightarrow> (Inl (msg e), L)
      | Inr (Some s) \<Rightarrow> (Inr s, L)
      | Inr None \<Rightarrow>
          (case pw_finnhub w of
             Inl e \<Rightarrow> (Inl (''Failed to fetch snapshot: '' @ msg e), L)
           | Inr snapshot_data \<Rightarrow>
               (case save_stock_snapshot (pw_save_snapshot w) L snapshot_data of
                  (Inl e, L1) \<Rightarrow> (Inl (''Failed to fetch snapshot: '' @ msg e), L1)
                | (Inr snapshot_id, L1) \<Rightarrow>
                    (case pw_snapshot_again w of
                       Inl e \<Rightarrow> (Inl (''Failed to fetch snapshot: '' @ msg e), L1)
                     | Inr None \<Rightarrow> (Inl ''Failed to retrieve snapshot after saving'', L1)
                     | Inr (Some s) \<Rightarrow> (Inr s, L1)))))"

text \<open>
  Lines 232 to 248: the confidence floor of the proposal stage. The result is the
  local \<open>action\<close>, the local \<open>confidence_score\<close> and the (possibly rewritten)
  \<open>proposal_data\<close>. Comparing a null score with 70 raises.
\<close>

definition type_error :: error where
  "type_error = Error ''TypeError''"

definition floor_note :: "(real \<Rightarrow> string) \<Rightarrow> real \<Rightarrow> string" where
  "floor_note str c = '' [Rejected: Confidence '' @ str c @ '' < 70 required for trading]''"

definition apply_confidence_floor ::
  "proposal_world \<Rightarrow> proposal_data \<Rightarrow> error + (string option \<times> real option \<times> proposal_data)" where
  "apply_confidence_floor w pd =
     (let confidence_score = jget_default (pd_confidence_score pd) 0;
          action = jget_default (pd_action pd) ''HOLD''
      in if action = Some ''BUY'' \<or> action = Some ''SELL''
         then (case confidence_score of
                 None \<Rightarrow> Inl type_error
               | Some c \<Rightarrow>
                   if c < 70
                   then Inr (Some ''HOLD'', confidence_score,
                             pd\<lparr>pd_action := Val ''HOLD'', pd_quantity := Val 0,
                                pd_reasoning :=
                                  Val (fstring_of (pd_reasoning pd)
                                       @ floor_note (pw_str_of_num w) c)\<rparr>)
                   else Inr (action, confidence_score, pd))
         else Inr (action, confidence_score, pd))"

text \<open>
  Lines 250 to 260: the \<open>TradeProposal\<close> object. The model class accepts as action
  one of BUY, SELL, HOLD, as quantity an integer, as reasoning a string, and as
  confidence score nothing or a number from 0 to 100.
\<close>

definition parse_action :: "string \<Rightarrow> action option" where
  "parse_action s =
     (if s = ''BUY'' then Some BUY
      else if s = ''SELL'' then Some SELL
      else if s = ''HOLD'' then Some HOLD
      else None)"

definition build_proposal ::
  "string \<Rightarrow> string option \<Rightarrow> real option \<Rightarrow> proposal_data \<Rightarrow> StockSnapshot \<Rightarrow>
     nat option \<Rightarrow> nat option \<Rightarrow> error + TradeProposal" where
  "build_proposal ticker action confidence_score pd snapshot event_id debate_id =
     (case (case action of None \<Rightarrow> None | Some s \<Rightarrow> parse_action s) of
        None \<Rightarrow> Inl validation_error
      | Some act \<Rightarrow>
     (case (if action \<noteq> Some ''HOLD'' then jget_default (pd_quantity pd) 0 else Some 0) of
        None \<Rightarrow> Inl validation_error
      | Some quantity \<Rightarrow>
     (case jget_default (pd_reasoning pd) [] of
        None \<Rightarrow> Inl validation_error
      | Some reasoning \<Rightarrow>
          if (case confidence_score of None \<Rightarrow> True | Some c \<Rightarrow> 0 \<le> c \<and> c \<le> 100)
          then Inr \<lparr>tp_id = None, tp_ticker = ticker, tp_action = act, tp_quantity = quantity,
                    tp_proposed_price = Some (ss_price snapshot), tp_reasoning = reasoning,
                    tp_confidence_score = confidence_score, tp_analysis_event_id = event_id,
                    tp_debate_id = debate_id, tp_status = PENDING\<rparr>
          else Inl validation_error)))"

text \<open>Lines 224 to 264: from the oracle call to the saved proposal.\<close>

definition propose ::
  "proposal_world \<Rightarrow> ledger \<Rightarrow> string \<Rightarrow> StockSnapshot \<Rightarrow> nat option \<Rightarrow> nat option \<Rightarrow>
     (error + TradeProposal) \<times> ledger" where
  "propose w L ticker snapshot event_id debate_id =
     (case pw_oracle w of
        CallFailed e \<Rightarrow> (Inl e, L)
      | Malformed e \<Rightarrow> (Inl e, L)
      | Reply proposal_data \<Rightarrow>
          (case apply_confidence_floor w proposal_data of
             Inl e \<Rightarrow> (Inl e, L)
           | Inr (action, confidence_score, pd) \<Rightarrow>
               (case build_proposal ticker action confidence_score pd snapshot event_id debate_id of
                  Inl e \<Rightarrow> (Inl e, L)
                | Inr proposal \<Rightarrow>
                    (case save_trade_proposal (pw_save_proposal w) L proposal of
                       (Inl e, L1) \<Rightarrow> (Inl e, L1)
                     | (Inr proposal_id, L1) \<Rightarrow> (Inr (proposal\<lparr>tp_id := proposal_id\<rparr>), L1)))))"

definition graph_create_proposal_from_debate ::
  "proposal_world \<Rightarrow> ledger \<Rightarrow> TradingState \<Rightarrow> TradingState \<times> ledger" where
  "graph_create_proposal_from_debate w L st =
     (let event_id = (case st_analysis_result st of None \<Rightarrow> None | Some r \<Rightarrow> res_event_id r) in
      if \<not> truthy_id event_id
      then (st\<lparr>st_error := Some ''No analysis event ID available''\<rparr>, L)
      else
        (case st_debate_result st of
           None \<Rightarrow> (st\<lparr>st_error := Some ''No debate result available''\<rparr>, L)
         | Some debate_result \<Rightarrow>
             (case resolve_snapshot w L of
                (Inl err, L1) \<Rightarrow> (st\<lparr>st_error := Some err\<rparr>, L1)
              | (Inr snapshot, L1) \<Rightarrow>
                  (case propose w L1 (ticker_of st) snapshot event_id
                          (dr_debate_id debate_result) of
                     (Inl e, L2) \<Rightarrow> (st\<lparr>st_error := Some (msg e)\<rparr>, L2)
                   | (Inr proposal, L2) \<Rightarrow> (st\<lparr>st_trade_proposal := Some proposal\<rparr>, L2)))))"

text \<open>
  A proposal as the proposal stage leaves it after the floor has struck: forced to HOLD
  with quantity 0, the rejection annotation appended to the oracle's reasoning, the
  oracle's confidence kept, status PENDING.
\<close>

definition held_row ::
  "proposal_world \<Rightarrow> proposal_data \<Rightarrow> real \<Rightarrow> TradeProposal \<Rightarrow> bool" where
  "held_row w pd c row \<longleftrightarrow>
     tp_action row = HOLD \<and> tp_quantity row = 0
     \<and> tp_reasoning row = fstring_of (pd_reasoning pd) @ floor_note (pw_str_of_num w) c
     \<and> tp_confidence_score row = Some c \<and> tp_status row = PENDING"

subsection \<open>Risk review node, the gate, execution node\<close>

text \<open>\<open>_review_proposal\<close>.\<close>

definition graph_review_proposal :: "review_world \<Rightarrow> TradingState \<Rightarrow> TradingState" where
  "graph_review_proposal w st =
     (case st_trade_proposal st of
        None \<Rightarrow> st\<lparr>st_error := Some ''No proposal to review''\<rparr>
      | Some proposal \<Rightarrow>
          (case review_proposal w proposal of
             Inl e \<Rightarrow> st\<lparr>st_error := Some (msg e)\<rparr>
           | Inr d \<Rightarrow> st\<lparr>st_portfolio_decision := Some d\<rparr>))"

text \<open>
  \<open>_should_execute\<close>: \<open>True\<close> is the edge to the execution node. The key
  \<open>portfolio_decision\<close> is present, so the default of \<open>state.get\<close> is not used and
  a state without a decision raises on \<open>decision.get\<close>.
\<close>

definition should_execute :: "TradingState \<Rightarrow> error + bool" where
  "should_execute st =
     (case st_portfolio_decision st of
        None \<Rightarrow> Inl attribute_error
      | Some d \<Rightarrow> Inr (jget (dc_decision d) = Some ''APPROVE''))"

text \<open>
  \<open>_execute_trade\<close>. An empty decision dictionary is falsy; of the keys the engine
  reads, an empty one has none.
\<close>

definition decision_empty :: "decision \<Rightarrow> bool" where
  "decision_empty d \<longleftrightarrow>
     dc_decision d = Absent \<and> dc_reasoning d = Absent \<and> dc_adjusted_quantity d = Absent
     \<and> dc_position_to_sell d = Absent \<and> dc_sell_quantity d = Absent"

definition summary_of :: "ExecutedTrade \<Rightarrow> executed_summary" where
  "summary_of t =
     \<lparr>xs_id = et_id t, xs_ticker = et_ticker t, xs_action = et_action t,
      xs_quantity = et_quantity t, xs_price = et_execution_price t\<rparr>"

definition graph_execute_trade ::
  "exec_world \<Rightarrow> ledger \<Rightarrow> TradingState \<Rightarrow> TradingState \<times> ledger \<times> effect list" where
  "graph_execute_trade w L st =
     (case (st_trade_proposal st, st_portfolio_decision st) of
        (Some proposal, Some d) \<Rightarrow>
          if decision_empty d
          then (st\<lparr>st_error := Some ''Missing proposal or decision''\<rparr>, L, [])
          else
            (case execute_trade w L proposal d of
               (Inl e, L1, fx) \<Rightarrow> (st\<lparr>st_error := Some (msg e)\<rparr>, L1, fx)
             | (Inr None, L1, fx) \<Rightarrow> (st, L1, fx)
             | (Inr (Some executed), L1, fx) \<Rightarrow>
                 (st\<lparr>st_executed_trade := Some (summary_of executed)\<rparr>, L1, fx))
      | _ \<Rightarrow> (st\<lparr>st_error := Some ''Missing proposal or decision''\<rparr>, L, []))"

subsection \<open>The compiled graph\<close>

text \<open>
  Everything the world does while one ticker goes through the graph, and the graph of
  \<open>_build_graph\<close>: the screening node, the conditional edge \<open>_should_debate\<close>,
  the debate, proposal and review nodes in a row, the conditional edge
  \<open>_should_execute\<close>, the execution node. An exception of a conditional edge leaves
  \<open>invoke\<close>.
\<close>

record ticker_world =
  tw_analyze :: analyze_world
  tw_debate :: debate_world
  tw_proposal :: proposal_world
  tw_review :: review_world
  tw_execute :: exec_world

definition graph_invoke ::
  "ticker_world \<Rightarrow> ledger \<Rightarrow> TradingState \<Rightarrow> (error + TradingState) \<times> ledger \<times> effect list" where
  "graph_invoke w L st0 =
     (case graph_analyze_ticker (tw_analyze w) L st0 of
        (st1, L1) \<Rightarrow>
          (case should_debate st1 of
             Inl e \<Rightarrow> (Inl e, L1, [])
           | Inr debate \<Rightarrow>
               if \<not> debate then (Inr st1, L1, [])
               else
                 (case graph_conduct_debate (tw_debate w) L1 st1 of
                    (st2, L2) \<Rightarrow>
                      (case graph_create_proposal_from_debate (tw_proposal w) L2 st2 of
                         (st3, L3) \<Rightarrow>
                           (let st4 = graph_review_proposal (tw_review w) st3 in
                            case should_execute st4 of
                              Inl e \<Rightarrow> (Inl e, L3, [])
                            | Inr execute \<Rightarrow>
                                if \<not> execute then (Inr st4, L3, [])
                                else (case graph_execute_trade (tw_execute w) L3 st4 of
                                        (st5, L5, fx) \<Rightarrow> (Inr st5, L5, fx)))))))"

definition initial_state :: "string \<Rightarrow> TradingState" where
  "initial_state ticker =
     \<lparr>st_ticker = Some ticker, st_analysis_result = None, st_needs_debate = Some False,
      st_debate_result = None, st_trade_proposal = None, st_portfolio_decision = None,
      st_executed_trade = None, st_error = None\<rparr>"

definition graph_run ::
  "ticker_world \<Rightarrow> ledger \<Rightarrow> string \<Rightarrow> (error + TradingState) \<times> ledger \<times> effect list" where
  "graph_run w L ticker = graph_invoke w L (initial_state ticker)"

section \<open>backend/main.py: TradingSystem\<close>

text \<open>
  The system is the ledger and the trace of what the engine has done, in order: the two
  checks of \<open>should_run_trading_cycle\<close>, the start of each ticker's pipeline, the
  broker calls and sleeps, and the acquiring and releasing of the advisory lock.
\<close>

datatype event =
    MarketStatusChecked
  | HasTradedChecked
  | TickerStarted string
  | Did effect
  | LockAcquired
  | LockReleased

record system =
  sys_ledger :: ledger
  sys_trace :: "event list"

text \<open>
  The world of one ticker in one cycle: Finnhub's answer and the insert in
  \<open>update_stock_data\<close>, and the world of the ticker's pipeline. The world of one
  round of the main loop: whether the market is open (\<open>is_market_open\<close> catches its
  exceptions and then answers False), whether the query of \<open>has_traded_today\<close>
  raises, the clock, and the world of the i-th ticker of \<open>settings.stocks\<close>.
\<close>

record stock_world =
  sw_finnhub :: "error + StockSnapshot"
  sw_save_snapshot :: insert_outcome
  sw_pipeline :: ticker_world

record cycle_world =
  cw_market_open :: bool
  cw_has_traded :: "error option"
  cw_now :: nat
  cw_stock :: "nat \<Rightarrow> stock_world"

text \<open>
  \<open>update_stock_data\<close>: for each ticker fetch and save a snapshot; a failure is
  logged and the loop goes on.
\<close>

definition update_one :: "stock_world \<Rightarrow> ledger \<Rightarrow> ledger" where
  "update_one w L =
     (case sw_finnhub w of
        Inl e \<Rightarrow> L
      | Inr snapshot \<Rightarrow> snd (save_stock_snapshot (sw_save_snapshot w) L snapshot))"

fun update_stock_data :: "(nat \<Rightarrow> stock_world) \<Rightarrow> nat \<Rightarrow> string list \<Rightarrow> ledger \<Rightarrow> ledger" where
  "update_stock_data ws i [] L = L"
| "update_stock_data ws i (ticker # rest) L =
     update_stock_data ws (Suc i) rest (update_one (ws i) L)"

text \<open>
  \<open>process_ticker\<close>: run the graph; whatever it returns or raises is only logged.
\<close>

definition process_ticker :: "ticker_world \<Rightarrow> string \<Rightarrow> system \<Rightarrow> system" where
  "process_ticker w ticker s =
     (case graph_run w (sys_ledger s) ticker of
        (r, L1, fx) \<Rightarrow>
          \<lparr>sys_ledger = L1, sys_trace = sys_trace s @ [TickerStarted ticker] @ map Did fx\<rparr>)"

text \<open>\<open>run_cycle\<close>: update all snapshots, then process each ticker and sleep 5 seconds.\<close>

fun process_all :: "(nat \<Rightarrow> stock_world) \<Rightarrow> nat \<Rightarrow> string list \<Rightarrow> system \<Rightarrow> system" where
  "process_all ws i [] s = s"
| "process_all ws i (ticker # rest) s =
     process_all ws (Suc i) rest
       (let s1 = process_ticker (sw_pipeline (ws i)) ticker s
        in s1\<lparr>sys_trace := sys_trace s1 @ [Did (Sleep 5)]\<rparr>)"

definition run_cycle :: "cycle_world \<Rightarrow> string list \<Rightarrow> system \<Rightarrow> system" where
  "run_cycle w stocks s =
     process_all (cw_stock w) 0 stocks
       (s\<lparr>sys_ledger := update_stock_data (cw_stock w) 0 stocks (sys_ledger s)\<rparr>)"

text \<open>
  \<open>should_run_trading_cycle\<close>: the market must be open and no trade may be recorded
  today.
\<close>

definition should_run_trading_cycle :: "cycle_world \<Rightarrow> system \<Rightarrow> (error + bool) \<times> system" where
  "should_run_trading_cycle w s =
     (let s1 = s\<lparr>sys_trace := sys_trace s @ [MarketStatusChecked]\<rparr> in
      if \<not> cw_market_open w then (Inr False, s1)
      else
        (let s2 = s1\<lparr>sys_trace := sys_trace s1 @ [HasTradedChecked]\<rparr> in
         case has_traded_today (cw_has_traded w) (sys_ledger s2) (cw_now w) of
           Inl e \<Rightarrow> (Inl e, s2)
         | Inr traded \<Rightarrow> if traded then (Inr False, s2) else (Inr True, s2)))"

text \<open>
  One round of the \<open>while True\<close> loop of \<open>run\<close>, and the loop over the rounds the
  world scripts (the loop itself never ends; a finite script is a prefix of its run).
\<close>

definition run_round :: "string list \<Rightarrow> nat \<Rightarrow> cycle_world \<Rightarrow> system \<Rightarrow> system" where
  "run_round stocks interval_minutes w s =
     (case should_run_trading_cycle w s of
        (Inl e, s1) \<Rightarrow> s1\<lparr>sys_trace := sys_trace s1 @ [Did (Sleep 60)]\<rparr>
      | (Inr go, s1) \<Rightarrow>
          (let s2 = (if go then run_cycle w stocks s1 else s1)
           in s2\<lparr>sys_trace := sys_trace s2 @ [Did (Sleep (interval_minutes * 60))]\<rparr>))"

fun run :: "string list \<Rightarrow> nat \<Rightarrow> cycle_world list \<Rightarrow> system \<Rightarrow> system" where
  "run stocks interval_minutes [] s = s"
| "run stocks interval_minutes (w # ws) s =
     run stocks interval_minutes ws (run_round stocks interval_minutes w s)"

text \<open>
  The reading of "the critical section runs under the lock" on a trace: scanning from
  the left with the flag "lock held", every check of the daily cap and every start of a
  ticker's pipeline happens while the flag is set.
\<close>

fun under_lock :: "bool \<Rightarrow> event list \<Rightarrow> bool" where
  "under_lock held [] = True"
| "under_lock held (LockAcquired # es) = under_lock True es"
| "under_lock held (LockReleased # es) = under_lock False es"
| "under_lock held (HasTradedChecked # es) = (held \<and> under_lock held es)"
| "under_lock held (TickerStarted t # es) = (held \<and> under_lock held es)"
| "under_lock held (MarketStatusChecked # es) = under_lock held es"
| "under_lock held (Did fx # es) = under_lock held es"

text \<open>The calendar day (UTC) of a stored trade, and the trades stored on a given day.\<close>

definition trade_day :: "ExecutedTrade \<Rightarrow> nat option" where
  "trade_day t = map_option (\<lambda>stamp. stamp div 86400) (et_executed_at t)"

definition trades_on_day :: "ledger \<Rightarrow> nat \<Rightarrow> ExecutedTrade list" where
  "trades_on_day L day = filter (\<lambda>t. trade_day t = Some day) (executed_trades L)"

text \<open>
  Two engine instances may run against the same ledger. An instance runs the nodes of
  its graph in order; between two nodes the other instance may run. For such schedules
  the nodes from the screening to the risk review are put together here, for a ticker
  whose screening leads on to the debate.
\<close>

definition nodes_up_to_review ::
  "ticker_world \<Rightarrow> ledger \<Rightarrow> string \<Rightarrow> TradingState \<times> ledger" where
  "nodes_up_to_review w L ticker =
     (case graph_analyze_ticker (tw_analyze w) L (initial_state ticker) of
        (st1, L1) \<Rightarrow>
          (case graph_conduct_debate (tw_debate w) L1 st1 of
             (st2, L2) \<Rightarrow>
               (case graph_create_proposal_from_debate (tw_proposal w) L2 st2 of
                  (st3, L3) \<Rightarrow> (graph_review_proposal (tw_review w) st3, L3))))"

text \<open>
  A schedule of two instances A and B on one ledger: A runs its nodes up to the review,
  then B runs its nodes up to the review, then A passes its gate and executes, then B
  does. The result is the ledger as it was when B's review was done, and the final
  ledger.
\<close>

definition gate_and_execute ::
  "ticker_world \<Rightarrow> ledger \<Rightarrow> TradingState \<Rightarrow> ledger" where
  "gate_and_execute w L st =
     (if should_execute st = Inr True
      then (case graph_execute_trade (tw_execute w) L st of (st', L', fx) \<Rightarrow> L')
      else L)"

definition two_instances ::
  "ticker_world \<Rightarrow> string \<Rightarrow> ticker_world \<Rightarrow> string \<Rightarrow> ledger \<Rightarrow> ledger \<times> ledger" where
  "two_instances wA tickerA wB tickerB L0 =
     (case nodes_up_to_review wA L0 tickerA of
        (stA, L1) \<Rightarrow>
          (case nodes_up_to_review wB L1 tickerB of
             (stB, L2) \<Rightarrow> (L2, gate_and_execute wB (gate_and_execute wA L2 stA) stB)))"

section \<open>Example worlds\<close>

text \<open>
  A world in which everything goes well for one ticker: a snapshot is on record, the
  screening oracle finds the ticker interesting, the debate succeeds, the proposal
  oracle answers BUY 10 with confidence 85, the risk oracle approves, and the broker
  fills the order. The other example worlds change one answer of this one.
\<close>

definition str_of_num :: "real \<Rightarrow> string" where
  "str_of_num c = (if c = 65 then ''65'' else if c = 50 then ''50'' else ''?'')"

definition snapshot_150 :: "string \<Rightarrow> StockSnapshot" where
  "snapshot_150 ticker = \<lparr>ss_ticker = ticker, ss_price = 150\<rparr>"

definition good_analysis :: analysis where
  "good_analysis =
     \<lparr>an_is_interesting = Val True, an_reasoning = Val ''earnings beat'',
      an_confidence = Val 80\<rparr>"

definition good_analyze_world :: "string \<Rightarrow> analyze_world" where
  "good_analyze_world ticker =
     \<lparr>aw_articles = Inr [\<lparr>ar_title = Some ''Earnings beat'', ar_timestamp = None,
                            ar_content_text = Some ''...''\<rparr>],
      aw_snapshot = Inr (Some (snapshot_150 ticker)),
      aw_finnhub = Inr (snapshot_150 ticker),
      aw_save_snapshot = Inserted,
      aw_snapshot_again = Inr (Some (snapshot_150 ticker)),
      aw_oracle = Reply good_analysis,
      aw_save_event = Inserted\<rparr>"

definition good_debate_world :: debate_world where
  "good_debate_world =
     \<lparr>dw_articles = None, dw_snapshot = None, dw_recent_trades = None,
      dw_bull = Inr ''up'', dw_bear = Inr ''down'', dw_consensus = Inr ''mildly up'',
      dw_save_debate = Inserted\<rparr>"

definition buy_10_at_85 :: proposal_data where
  "buy_10_at_85 =
     \<lparr>pd_action = Val ''BUY'', pd_quantity = Val 10, pd_reasoning = Val ''converging news'',
      pd_confidence_score = Val 85\<rparr>"

definition good_proposal_world :: "string \<Rightarrow> proposal_world" where
  "good_proposal_world ticker =
     \<lparr>pw_snapshot = Inr (Some (snapshot_150 ticker)),
      pw_finnhub = Inr (snapshot_150 ticker),
      pw_save_snapshot = Inserted,
      pw_snapshot_again = Inr (Some (snapshot_150 ticker)),
      pw_oracle = Reply buy_10_at_85,
      pw_str_of_num = str_of_num,
      pw_save_proposal = Inserted\<rparr>"

definition approve :: decision where
  "approve =
     \<lparr>dc_decision = Val ''APPROVE'', dc_reasoning = Val ''strong evidence'',
      dc_adjusted_quantity = Absent, dc_position_to_sell = Null, dc_sell_quantity = Null\<rparr>"

definition good_review_world :: review_world where
  "good_review_world =
     \<lparr>rw_account = Inr \<lparr>acc_buying_power = 100000\<rparr>,
      rw_positions = Inr [],
      rw_recent_trades = None,
      rw_snapshot = Inr None,
      rw_json_dumps = None,
      rw_oracle = Reply approve,
      rw_str_of_num = str_of_num\<rparr>"

definition good_evaluate_world :: evaluate_world where
  "good_evaluate_world =
     \<lparr>ew_position_reads = None, ew_json_dumps = None,
      ew_oracle = Reply \<lparr>ev_should_rebalance = Val False, ev_reasoning = Val ''keep'',
                        ev_position_to_sell = Null, ev_sell_quantity = Null\<rparr>\<rparr>"

definition good_exec_world :: "nat \<Rightarrow> exec_world" where
  "good_exec_world now =
     \<lparr>xw_update_status = None, xw_update_status_handler = None,
      xw_account = Inr \<lparr>acc_buying_power = 100000\<rparr>,
      xw_snapshot = Inr None,
      xw_positions = Inr [],
      xw_evaluate = good_evaluate_world,
      xw_sell_order = Inr \<lparr>ord_id = ''s1'', ord_price = Some 99\<rparr>,
      xw_order = Inr \<lparr>ord_id = ''o1'', ord_price = Some 151\<rparr>,
      xw_save_trade = Inserted,
      xw_now = now\<rparr>"

definition good_ticker_world :: "string \<Rightarrow> nat \<Rightarrow> ticker_world" where
  "good_ticker_world ticker now =
     \<lparr>tw_analyze = good_analyze_world ticker, tw_debate = good_debate_world,
      tw_proposal = good_proposal_world ticker, tw_review = good_review_world,
      tw_execute = good_exec_world now\<rparr>"

text \<open>A stored, pending BUY proposal with the given confidence, and its ledger.\<close>

definition pending_buy :: "real \<Rightarrow> TradeProposal" where
  "pending_buy c =
     \<lparr>tp_id = Some 1, tp_ticker = ''AAPL'', tp_action = BUY, tp_quantity = 10,
      tp_proposed_price = Some 150, tp_reasoning = ''converging news'',
      tp_confidence_score = Some c, tp_analysis_event_id = Some 1, tp_debate_id = Some 1,
      tp_status = PENDING\<rparr>"

definition ledger_with :: "TradeProposal \<Rightarrow> ledger" where
  "ledger_with p = empty_ledger\<lparr>trade_proposals := [p]\<rparr>"

text \<open>The state of a ticker after a successful screening and debate.\<close>

definition debated_state :: "string \<Rightarrow> TradingState" where
  "debated_state ticker =
     (initial_state ticker)
       \<lparr>st_analysis_result :=
          Some \<lparr>res_event_id = Some 1, res_analysis = good_analysis, res_ticker = ticker\<rparr>,
        st_needs_debate := Some True,
        st_debate_result :=
          Some \<lparr>dr_debate_id = Some 1, dr_bull_argument = ''up'', dr_bear_argument = ''down'',
                dr_consensus = ''mildly up''\<rparr>\<rparr>"

text \<open>
  A rebalancing that the confirmation call contradicts: the decision approves the BUY
  and flags the position OLD for selling, the buying power no longer covers the BUY,
  both OLD and NEW are held, and the second oracle call names NEW.
\<close>

definition approve_selling_old :: decision where
  "approve_selling_old = approve\<lparr>dc_position_to_sell := Val ''OLD'', dc_sell_quantity := Val 5\<rparr>"

definition held :: "string \<Rightarrow> position" where
  "held symbol = \<lparr>pos_symbol = symbol, pos_qty = 5, pos_current_price = 40\<rparr>"

definition sell_new_instead :: evaluation where
  "sell_new_instead =
     \<lparr>ev_should_rebalance = Val True, ev_reasoning = Val ''NEW is weaker'',
      ev_position_to_sell = Val ''NEW'', ev_sell_quantity = Val 3\<rparr>"

definition disagreeing_exec_world :: exec_world where
  "disagreeing_exec_world =
     (good_exec_world 1000)
       \<lparr>xw_account := Inr \<lparr>acc_buying_power = 100\<rparr>,
        xw_positions := Inr [held ''OLD'', held ''NEW''],
        xw_evaluate := good_evaluate_world\<lparr>ew_oracle := Reply sell_new_instead\<rparr>\<rparr>"

text \<open>A broker that refuses the main order.\<close>

definition refusing_exec_world :: exec_world where
  "refusing_exec_world = (good_exec_world 1000)\<lparr>xw_order := Inl (Error ''broker down'')\<rparr>"

text \<open>
  A broker that refuses the rebalancing sell: as above, but the confirmation call gives
  no recommendation, so the sell of OLD is attempted.
\<close>

definition failing_sell_exec_world :: exec_world where
  "failing_sell_exec_world =
     disagreeing_exec_world
       \<lparr>xw_evaluate := good_evaluate_world, xw_sell_order := Inl (Error ''sell refused'')\<rparr>"

text \<open>
  One round of the main loop in which the market is open, and every ticker of the list
  AAPL, MSFT meets a world in which everything goes well.
\<close>

definition good_stock_world :: "string \<Rightarrow> nat \<Rightarrow> stock_world" where
  "good_stock_world ticker now =
     \<lparr>sw_finnhub = Inr (snapshot_150 ticker), sw_save_snapshot = Inserted,
      sw_pipeline = good_ticker_world ticker now\<rparr>"

definition good_cycle_world :: "nat \<Rightarrow> cycle_world" where
  "good_cycle_world now =
     \<lparr>cw_market_open = True, cw_has_traded = None, cw_now = now,
      cw_stock = (\<lambda>i. good_stock_world (if i = 0 then ''AAPL'' else ''MSFT'') now)\<rparr>"

definition fresh_system :: system where
  "fresh_system = \<lparr>sys_ledger = empty_ledger, sys_trace = []\<rparr>"

section \<open>Predicates on the ledger\<close>

text \<open>
  The confidence floor on a proposal: a score is present and at least 70. The ledger
  respects the floor when every proposal row with status EXECUTED is above it.
\<close>

definition above_floor :: "TradeProposal \<Rightarrow> bool" where
  "above_floor p \<longleftrightarrow> (case tp_confidence_score p of None \<Rightarrow> False | Some c \<Rightarrow> 70 \<le> c)"

definition floor_row :: "TradeProposal \<Rightarrow> bool" where
  "floor_row r \<longleftrightarrow> (tp_status r = EXECUTED \<longrightarrow> above_floor r)"

definition executed_above_floor :: "ledger \<Rightarrow> bool" where
  "executed_above_floor L \<longleftrightarrow> list_all floor_row (trade_proposals L)"

text \<open>
  The proposal table is append-only and its ids are serial numbers: every row has an
  id, and no id exceeds the number of rows.
\<close>

definition id_within :: "nat \<Rightarrow> TradeProposal \<Rightarrow> bool" where
  "id_within n r \<longleftrightarrow> (case tp_id r of None \<Rightarrow> False | Some i \<Rightarrow> i \<le> n)"

definition serial_ids :: "ledger \<Rightarrow> bool" where
  "serial_ids L \<longleftrightarrow> list_all (id_within (length (trade_proposals L))) (trade_proposals L)"

text \<open>The invariant of the engine behind the confidence floor.\<close>

definition floor_inv :: "ledger \<Rightarrow> bool" where
  "floor_inv L \<longleftrightarrow> serial_ids L \<and> executed_above_floor L"

text \<open>A stretch of trace in which the advisory lock is neither acquired nor released.\<close>

definition lock_free :: "event list \<Rightarrow> bool" where
  "lock_free tr \<longleftrightarrow> LockAcquired \<notin> set tr \<and> LockReleased \<notin> set tr"

section \<open>Evaluation\<close>

text \<open>The definitions of the model, for evaluating it on a concrete world.\<close>

lemmas all_defs =
  fresh_session_def release_def release_warning_def finally_with_cursor_def
  timeout_error_def acquire_def empty_ledger_def save_stock_snapshot_def
  save_analysis_event_def save_debate_def save_trade_proposal_def save_executed_trade_def
  set_status_def mark_status_def update_proposal_status_def status_of_def today_start_def
  on_day_of_def trades_today_def has_traded_today_def headline_def
  screening_context_of_def fetch_missing_snapshot_def validation_error_def
  record_analysis_def analyze_ticker_try_def failed_analysis_def analyze_ticker_def
  conduct_debate_def current_position_of_def price_or_zero_def estimate_required_cash_def
  confidence_or_zero_def review_rejection_note_def enforce_floor_def
  review_proposal_try_def review_failed_def review_proposal_def
  evaluate_position_to_sell_def sell_to_rebalance_def reject_and_return_def
  confirm_and_sell_def live_price_def rebalance_step_def invalid_operation_def
  build_executed_trade_def main_trade_def execute_trade_try_def execute_trade_def
  attribute_error_def ticker_of_def graph_analyze_ticker_def should_debate_def
  graph_conduct_debate_def resolve_snapshot_def type_error_def floor_note_def
  apply_confidence_floor_def parse_action_def build_proposal_def propose_def
  graph_create_proposal_from_debate_def held_row_def graph_review_proposal_def
  should_execute_def decision_empty_def summary_of_def graph_execute_trade_def
  graph_invoke_def initial_state_def graph_run_def update_one_def process_ticker_def
  run_cycle_def should_run_trading_cycle_def run_round_def trade_day_def
  trades_on_day_def nodes_up_to_review_def gate_and_execute_def two_instances_def
  str_of_num_def snapshot_150_def good_analysis_def good_analyze_world_def
  good_debate_world_def buy_10_at_85_def good_proposal_world_def approve_def
  good_review_world_def good_evaluate_world_def good_exec_world_def good_ticker_world_def
  pending_buy_def ledger_with_def debated_state_def approve_selling_old_def held_def
  sell_new_instead_def disagreeing_exec_world_def refusing_exec_world_def
  failing_sell_exec_world_def good_stock_world_def good_cycle_world_def fresh_system_def
  above_floor_def floor_row_def executed_above_floor_def id_within_def serial_ids_def
  floor_inv_def lock_free_def

section \<open>Screening\<close>

lemma fetch_missing_snapshot_events:
  "fetch_missing_snapshot w L s = (r, L') \<Longrightarrow> analysis_events L' = analysis_events L"
  by (auto simp: fetch_missing_snapshot_def save_stock_snapshot_def
      split: option.splits sum.splits insert_outcome.splits)

lemma analyze_try_failed_events:
  "analyze_ticker_try w L t = (Inl e, L') \<Longrightarrow> analysis_events L' = analysis_events L"
  by (auto simp: analyze_ticker_try_def record_analysis_def save_analysis_event_def Let_def
      dest: fetch_missing_snapshot_events
      split: sum.splits option.splits oracle_reply.splits prod.splits insert_outcome.splits)

lemma analyze_try_oracle_failed:
  "aw_oracle w = CallFailed e \<Longrightarrow> \<exists>e' L'. analyze_ticker_try w L t = (Inl e', L')"
  by (auto simp: analyze_ticker_try_def split: sum.splits option.splits prod.splits)

lemma analyze_try_oracle_reached:
  "aw_oracle w = CallFailed e \<Longrightarrow> aw_articles w = Inr a \<Longrightarrow> aw_snapshot w = Inr (Some s) \<Longrightarrow>
     analyze_ticker_try w L t = (Inl e, L)"
  by (simp add: analyze_ticker_try_def fetch_missing_snapshot_def)

lemma analyze_try_success:
  "analyze_ticker_try w L t = (Inr r, L') \<Longrightarrow>
     \<exists>an. aw_oracle w = Reply an \<and> res_analysis r = an
       \<and> (analysis_events L' = analysis_events L \<and> res_event_id r = None
          \<or> (\<exists>ev. analysis_events L' = analysis_events L @ [ev]
                \<and> res_event_id r = ae_id ev \<and> ae_id ev \<noteq> None
                \<and> Some (ae_reasoning ev) = jget_default (an_reasoning an) []))"
  by (auto simp: analyze_ticker_try_def record_analysis_def save_analysis_event_def Let_def
      dest: fetch_missing_snapshot_events
      split: sum.splits option.splits oracle_reply.splits prod.splits insert_outcome.splits)

text \<open>
  C3, as the code has it. When the oracle call of the screening stage raises, the stage
  returns a result that is not interesting, whose reasoning is the text "Error: " followed
  by the message of the exception caught (the oracle's own, once the reads before the
  call went through), with no event id, and it stores no analysis event. An analysis
  event is stored only after the oracle has replied, and then the result carries its id.
\<close>

theorem screening_failure_returns_not_interesting_without_event:
  "(aw_oracle w = CallFailed e \<longrightarrow>
       an_is_interesting (res_analysis (fst (analyze_ticker w L t))) = Val False
     \<and> (\<exists>e'. an_reasoning (res_analysis (fst (analyze_ticker w L t))) = Val (''Error: '' @ msg e'))
     \<and> res_event_id (fst (analyze_ticker w L t)) = None
     \<and> analysis_events (snd (analyze_ticker w L t)) = analysis_events L)
   \<and> (aw_oracle w = CallFailed e \<and> aw_articles w = Inr a \<and> aw_snapshot w = Inr (Some s) \<longrightarrow>
       an_reasoning (res_analysis (fst (analyze_ticker w L t))) = Val (''Error: '' @ msg e))
   \<and> (analysis_events (snd (analyze_ticker w L t)) \<noteq> analysis_events L \<longrightarrow>
       (\<exists>an ev. aw_oracle w = Reply an
          \<and> analysis_events (snd (analyze_ticker w L t)) = analysis_events L @ [ev]
          \<and> res_event_id (fst (analyze_ticker w L t)) = ae_id ev))"
proof (intro conjI impI)
  assume f: "aw_oracle w = CallFailed e"
  then obtain e' L' where t: "analyze_ticker_try w L t = (Inl e', L')"
    using analyze_try_oracle_failed by blast
  then have ev: "analysis_events L' = analysis_events L"
    by (rule analyze_try_failed_events)
  from t show "an_is_interesting (res_analysis (fst (analyze_ticker w L t))) = Val False"
    by (simp add: analyze_ticker_def failed_analysis_def)
  from t show "\<exists>e'. an_reasoning (res_analysis (fst (analyze_ticker w L t))) = Val (''Error: '' @ msg e')"
    by (auto simp: analyze_ticker_def failed_analysis_def)
  from t show "res_event_id (fst (analyze_ticker w L t)) = None"
    by (simp add: analyze_ticker_def)
  from t ev show "analysis_events (snd (analyze_ticker w L t)) = analysis_events L"
    by (simp add: analyze_ticker_def)
next
  assume "aw_oracle w = CallFailed e \<and> aw_articles w = Inr a \<and> aw_snapshot w = Inr (Some s)"
  then have "analyze_ticker_try w L t = (Inl e, L)"
    using analyze_try_oracle_reached by blast
  then show "an_reasoning (res_analysis (fst (analyze_ticker w L t))) = Val (''Error: '' @ msg e)"
    by (simp add: analyze_ticker_def failed_analysis_def)
next
  assume ne: "analysis_events (snd (analyze_ticker w L t)) \<noteq> analysis_events L"
  obtain r L' where t: "analyze_ticker_try w L t = (r, L')" by (cases "analyze_ticker_try w L t")
  show "\<exists>an ev. aw_oracle w = Reply an
          \<and> analysis_events (snd (analyze_ticker w L t)) = analysis_events L @ [ev]
          \<and> res_event_id (fst (analyze_ticker w L t)) = ae_id ev"
  proof (cases r)
    case (Inl e')
    with t have "analysis_events L' = analysis_events L"
      using analyze_try_failed_events by blast
    with t Inl ne show ?thesis by (simp add: analyze_ticker_def)
  next
    case (Inr res)
    with t analyze_try_success [of w L t res L'] ne show ?thesis
      by (auto simp: analyze_ticker_def)
  qed
qed


theorem screening_failure_returns_not_interesting_without_event_witness:
  "aw_oracle ((good_analyze_world ''AAPL'')\<lparr>aw_oracle := CallFailed (Error ''timeout'')\<rparr>)
     = CallFailed (Error ''timeout'')
   \<and> aw_articles ((good_analyze_world ''AAPL'')\<lparr>aw_oracle := CallFailed (Error ''timeout'')\<rparr>)
     = Inr [\<lparr>ar_title = Some ''Earnings beat'', ar_timestamp = None,
             ar_content_text = Some ''...''\<rparr>]
   \<and> aw_snapshot ((good_analyze_world ''AAPL'')\<lparr>aw_oracle := CallFailed (Error ''timeout'')\<rparr>)
     = Inr (Some (snapshot_150 ''AAPL''))
   \<and> an_reasoning (res_analysis (fst (analyze_ticker
        ((good_analyze_world ''AAPL'')\<lparr>aw_oracle := CallFailed (Error ''timeout'')\<rparr>)
        empty_ledger ''AAPL''))) = Val ''Error: timeout''
   \<and> an_is_interesting (res_analysis (fst (analyze_ticker
        ((good_analyze_world ''AAPL'')\<lparr>aw_oracle := CallFailed (Error ''timeout'')\<rparr>)
        empty_ledger ''AAPL''))) = Val False
   \<and> analysis_events (snd (analyze_ticker (good_analyze_world ''AAPL'') empty_ledger ''AAPL''))
       \<noteq> analysis_events empty_ledger
   \<and> res_event_id (fst (analyze_ticker (good_analyze_world ''AAPL'') empty_ledger ''AAPL''))
       = Some 1"
  using screening_failure_returns_not_interesting_without_event
    [of "(good_analyze_world ''AAPL'')\<lparr>aw_oracle := CallFailed (Error ''timeout'')\<rparr>"
        "Error ''timeout''" empty_ledger "''AAPL''"
        "[\<lparr>ar_title = Some ''Earnings beat'', ar_timestamp = None,
             ar_content_text = Some ''...''\<rparr>]" "snapshot_150 ''AAPL''"]
    screening_failure_returns_not_interesting_without_event
    [of "good_analyze_world ''AAPL''" "Error ''timeout''" empty_ledger "''AAPL''"]
  by (simp add: good_analyze_world_def good_analysis_def analyze_ticker_def analyze_ticker_try_def
      fetch_missing_snapshot_def record_analysis_def save_analysis_event_def
      screening_context_of_def headline_def empty_ledger_def failed_analysis_def Let_def)

text \<open>
  The claim as written fails: with a raising oracle call the ledger of analysis events
  stays empty and the result has no event id.
\<close>

theorem screening_failure_persists_no_event:
  "analysis_events (snd (analyze_ticker
      ((good_analyze_world ''AAPL'')\<lparr>aw_oracle := CallFailed (Error ''timeout'')\<rparr>)
      empty_ledger ''AAPL'')) = []
   \<and> res_event_id (fst (analyze_ticker
      ((good_analyze_world ''AAPL'')\<lparr>aw_oracle := CallFailed (Error ''timeout'')\<rparr>)
      empty_ledger ''AAPL'')) = None"
  by (simp add: good_analyze_world_def good_analysis_def analyze_ticker_def analyze_ticker_try_def
      fetch_missing_snapshot_def empty_ledger_def failed_analysis_def)


section \<open>Debate\<close>

lemma conduct_debate_failure_keeps_debates:
  "conduct_debate w L t i = (Inl e, L') \<Longrightarrow> debates L' = debates L"
  by (auto simp: conduct_debate_def save_debate_def Let_def
      split: option.splits sum.splits insert_outcome.splits)

lemma conduct_debate_call_failed:
  "dw_bull w = Inl e \<or> dw_bear w = Inl e \<or> dw_consensus w = Inl e \<Longrightarrow>
     \<exists>e' L'. conduct_debate w L t i = (Inl e', L')"
  by (auto simp: conduct_debate_def save_debate_def Let_def
      split: option.splits sum.splits insert_outcome.splits)

lemma conduct_debate_success:
  "conduct_debate w L t i = (Inr d, L') \<Longrightarrow>
     \<exists>b r c. dw_bull w = Inr b \<and> dw_bear w = Inr r \<and> dw_consensus w = Inr c
       \<and> db_bull_argument d = b \<and> db_bear_argument d = r \<and> db_final_consensus d = Some c"
  by (auto simp: conduct_debate_def save_debate_def Let_def
      split: option.splits sum.splits insert_outcome.splits)

lemma conduct_debate_reached:
  "dw_articles w = None \<Longrightarrow> dw_snapshot w = None \<Longrightarrow> dw_recent_trades w = None \<Longrightarrow>
   dw_bull w = Inr b \<Longrightarrow> dw_bear w = Inr r \<Longrightarrow> dw_consensus w = Inl e \<Longrightarrow>
     conduct_debate w L t i = (Inl e, L)"
  by (simp add: conduct_debate_def)

text \<open>
  C7, as the code has it. All of \<open>conduct_debate\<close> is one \<open>try\<close> block whose
  handler re-raises: when the bull call, the bear call or the consensus call raises, the
  stage ends with an exception and stores no transcript; when the first two calls went
  through and the consensus call raises, the exception surfaced is the consensus call's.
  A transcript is returned only when all three calls returned, and its consensus is the
  text of the third.
\<close>

theorem debate_fails_when_any_call_fails:
  "((dw_bull w = Inl e \<or> dw_bear w = Inl e \<or> dw_consensus w = Inl e) \<longrightarrow>
       (\<exists>e'. fst (conduct_debate w L t i) = Inl e')
     \<and> debates (snd (conduct_debate w L t i)) = debates L)
   \<and> (dw_articles w = None \<and> dw_snapshot w = None \<and> dw_recent_trades w = None
        \<and> dw_bull w = Inr b \<and> dw_bear w = Inr r \<and> dw_consensus w = Inl e \<longrightarrow>
       conduct_debate w L t i = (Inl e, L))
   \<and> (fst (conduct_debate w L t i) = Inr d \<longrightarrow>
       (\<exists>b r c. dw_bull w = Inr b \<and> dw_bear w = Inr r \<and> dw_consensus w = Inr c
          \<and> db_final_consensus d = Some c))"
proof (intro conjI impI)
  assume f: "dw_bull w = Inl e \<or> dw_bear w = Inl e \<or> dw_consensus w = Inl e"
  then obtain e' L' where c: "conduct_debate w L t i = (Inl e', L')"
    using conduct_debate_call_failed by blast
  then show "\<exists>e'. fst (conduct_debate w L t i) = Inl e'" by simp
  from c have "debates L' = debates L" by (rule conduct_debate_failure_keeps_debates)
  with c show "debates (snd (conduct_debate w L t i)) = debates L" by simp
next
  assume "dw_articles w = None \<and> dw_snapshot w = None \<and> dw_recent_trades w = None
        \<and> dw_bull w = Inr b \<and> dw_bear w = Inr r \<and> dw_consensus w = Inl e"
  then show "conduct_debate w L t i = (Inl e, L)"
    using conduct_debate_reached by blast
next
  assume s: "fst (conduct_debate w L t i) = Inr d"
  obtain L' where "conduct_debate w L t i = (Inr d, L')"
    using s by (cases "conduct_debate w L t i") auto
  then show "\<exists>b r c. dw_bull w = Inr b \<and> dw_bear w = Inr r \<and> dw_consensus w = Inr c
          \<and> db_final_consensus d = Some c"
    using conduct_debate_success by blast
qed

theorem debate_fails_when_any_call_fails_witness:
  "dw_consensus (good_debate_world\<lparr>dw_consensus := Inl (Error ''rate limit'')\<rparr>)
     = Inl (Error ''rate limit'')
   \<and> conduct_debate (good_debate_world\<lparr>dw_consensus := Inl (Error ''rate limit'')\<rparr>)
        empty_ledger ''AAPL'' 1 = (Inl (Error ''rate limit''), empty_ledger)
   \<and> fst (conduct_debate good_debate_world empty_ledger ''AAPL'' 1)
        = Inr \<lparr>db_id = Some 1, db_ticker = ''AAPL'', db_debate_type = ''bull_vs_bear'',
          db_transcript = [(''up'', ''down'')], db_bull_argument = ''up'',
          db_bear_argument = ''down'', db_final_consensus = Some ''mildly up'',
          db_trader_agent_id = Some 1\<rparr>"
  using debate_fails_when_any_call_fails
    [of "good_debate_world\<lparr>dw_consensus := Inl (Error ''rate limit'')\<rparr>" "Error ''rate limit''"
        empty_ledger "''AAPL''" 1 "''up''" "''down''"]
    debate_fails_when_any_call_fails
    [of good_debate_world "Error ''rate limit''" empty_ledger "''AAPL''" 1 "''up''" "''down''"
        "\<lparr>db_id = Some 1, db_ticker = ''AAPL'', db_debate_type = ''bull_vs_bear'',
          db_transcript = [(''up'', ''down'')], db_bull_argument = ''up'',
          db_bear_argument = ''down'', db_final_consensus = Some ''mildly up'',
          db_trader_agent_id = Some 1\<rparr>"]
  by (simp add: good_debate_world_def conduct_debate_def save_debate_def empty_ledger_def Let_def)

text \<open>
  The claim as written fails: with both arguments made and the consensus call raising,
  the stage raises and the ledger holds no debate.
\<close>

theorem consensus_failure_persists_no_transcript:
  "conduct_debate (good_debate_world\<lparr>dw_consensus := Inl (Error ''rate limit'')\<rparr>)
     empty_ledger ''AAPL'' 1 = (Inl (Error ''rate limit''), empty_ledger)
   \<and> debates (snd (conduct_debate (good_debate_world\<lparr>dw_consensus := Inl (Error ''rate limit'')\<rparr>)
        empty_ledger ''AAPL'' 1)) = []"
  by (simp add: good_debate_world_def conduct_debate_def empty_ledger_def)

section \<open>Risk review\<close>

lemma review_proposal_total: "\<exists>d. review_proposal w p = Inr d"
  by (simp add: review_proposal_def split: sum.splits)

lemma review_failed_rejects: "dc_decision (review_failed e) = Val ''REJECT''"
  by (simp add: review_failed_def)

lemma review_try_step_failed:
  "rw_account w = Inl e \<or> rw_positions w = Inl e \<or> rw_recent_trades w = Some e
   \<or> estimate_required_cash w acct (current_position_of positions (tp_ticker p)) p = Inl e
      \<and> rw_account w = Inr acct \<and> rw_positions w = Inr positions
   \<or> rw_json_dumps w = Some e \<or> rw_oracle w = CallFailed e \<or> rw_oracle w = Malformed e
   \<Longrightarrow> \<exists>e'. review_proposal_try w p = Inl e'"
  by (auto simp: review_proposal_try_def split: sum.splits option.splits oracle_reply.splits)

lemma should_execute_after_failed_review:
  "review_proposal_try w p = Inl e \<Longrightarrow>
     should_execute (graph_review_proposal w (st\<lparr>st_trade_proposal := Some p\<rparr>)) = Inr False"
  by (simp add: graph_review_proposal_def review_proposal_def should_execute_def review_failed_def)

text \<open>
  C10. \<open>review_proposal\<close> always returns a decision and never raises. Whenever the
  body of its \<open>try\<close> block raises, the decision returned is the REJECT built by the
  handler, and the gate \<open>_should_execute\<close> then takes the edge that does not
  execute. In particular this is so when the account fetch, the position fetch, the read
  of recent trades, the snapshot read of the price estimate, the serialisation of the
  context, the oracle call or the parse of its reply raises.
\<close>

theorem review_is_total_and_fails_closed:
  "(\<exists>d. review_proposal w p = Inr d)
   \<and> (review_proposal_try w p = Inl e \<longrightarrow>
        review_proposal w p = Inr (review_failed e)
      \<and> dc_decision (review_failed e) = Val ''REJECT''
      \<and> should_execute (graph_review_proposal w (st\<lparr>st_trade_proposal := Some p\<rparr>)) = Inr False)
   \<and> (rw_account w = Inl e \<or> rw_positions w = Inl e \<or> rw_recent_trades w = Some e
        \<or> estimate_required_cash w acct (current_position_of positions (tp_ticker p)) p = Inl e
           \<and> rw_account w = Inr acct \<and> rw_positions w = Inr positions
        \<or> rw_json_dumps w = Some e \<or> rw_oracle w = CallFailed e \<or> rw_oracle w = Malformed e
      \<longrightarrow> (\<exists>d. review_proposal w p = Inr d \<and> dc_decision d = Val ''REJECT'')
        \<and> should_execute (graph_review_proposal w (st\<lparr>st_trade_proposal := Some p\<rparr>)) = Inr False)"
proof (intro conjI impI)
  show "\<exists>d. review_proposal w p = Inr d" by (rule review_proposal_total)
next
  assume f: "review_proposal_try w p = Inl e"
  then show "review_proposal w p = Inr (review_failed e)" by (simp add: review_proposal_def)
  show "dc_decision (review_failed e) = Val ''REJECT''" by (rule review_failed_rejects)
  from f show "should_execute (graph_review_proposal w (st\<lparr>st_trade_proposal := Some p\<rparr>)) = Inr False"
    by (rule should_execute_after_failed_review)
next
  assume "rw_account w = Inl e \<or> rw_positions w = Inl e \<or> rw_recent_trades w = Some e
        \<or> estimate_required_cash w acct (current_position_of positions (tp_ticker p)) p = Inl e
           \<and> rw_account w = Inr acct \<and> rw_positions w = Inr positions
        \<or> rw_json_dumps w = Some e \<or> rw_oracle w = CallFailed e \<or> rw_oracle w = Malformed e"
  then obtain e' where f: "review_proposal_try w p = Inl e'"
    using review_try_step_failed by blast
  then have "review_proposal w p = Inr (review_failed e')" by (simp add: review_proposal_def)
  then show "\<exists>d. review_proposal w p = Inr d \<and> dc_decision d = Val ''REJECT''"
    by (simp add: review_failed_rejects)
  from f show "should_execute (graph_review_proposal w (st\<lparr>st_trade_proposal := Some p\<rparr>)) = Inr False"
    by (rule should_execute_after_failed_review)
qed

theorem review_is_total_and_fails_closed_witness:
  "rw_oracle (good_review_world\<lparr>rw_oracle := Malformed (Error ''bad json'')\<rparr>)
     = Malformed (Error ''bad json'')
   \<and> review_proposal_try (good_review_world\<lparr>rw_oracle := Malformed (Error ''bad json'')\<rparr>)
        (pending_buy 85) = Inl (Error ''bad json'')
   \<and> review_proposal (good_review_world\<lparr>rw_oracle := Malformed (Error ''bad json'')\<rparr>)
        (pending_buy 85)
       = Inr \<lparr>dc_decision = Val ''REJECT'', dc_reasoning = Val ''Review failed: bad json'',
              dc_adjusted_quantity = Absent, dc_position_to_sell = Absent,
              dc_sell_quantity = Absent\<rparr>
   \<and> should_execute (graph_review_proposal
          (good_review_world\<lparr>rw_oracle := Malformed (Error ''bad json'')\<rparr>)
          ((initial_state ''AAPL'')\<lparr>st_trade_proposal := Some (pending_buy 85)\<rparr>)) = Inr False"
  using review_is_total_and_fails_closed
    [of "good_review_world\<lparr>rw_oracle := Malformed (Error ''bad json'')\<rparr>" "pending_buy 85"
        "Error ''bad json''" "initial_state ''AAPL''" "\<lparr>acc_buying_power = 100000\<rparr>" "[]"]
  by (simp add: good_review_world_def review_proposal_def review_proposal_try_def
      estimate_required_cash_def current_position_of_def price_or_zero_def pending_buy_def
      review_failed_def Let_def)

section \<open>Proposal\<close>

lemma floor_applies:
  assumes "pd_action pd = Val ''BUY'' \<or> pd_action pd = Val ''SELL''"
    and "jget_default (pd_confidence_score pd) 0 = Some c" and "c < 70"
  shows "apply_confidence_floor w pd =
           Inr (Some ''HOLD'', Some c,
                pd\<lparr>pd_action := Val ''HOLD'', pd_quantity := Val 0,
                   pd_reasoning := Val (fstring_of (pd_reasoning pd) @ floor_note (pw_str_of_num w) c)\<rparr>)"
  using assms by (auto simp: apply_confidence_floor_def Let_def)

lemma build_held_proposal:
  "build_proposal t (Some ''HOLD'') (Some c)
      (pd\<lparr>pd_action := Val ''HOLD'', pd_quantity := Val 0, pd_reasoning := Val r\<rparr>) s eid did =
     (if 0 \<le> c \<and> c \<le> 100
      then Inr \<lparr>tp_id = None, tp_ticker = t, tp_action = HOLD, tp_quantity = 0,
                tp_proposed_price = Some (ss_price s), tp_reasoning = r,
                tp_confidence_score = Some c, tp_analysis_event_id = eid,
                tp_debate_id = did, tp_status = PENDING\<rparr>
      else Inl validation_error)"
  by (simp add: build_proposal_def parse_action_def)

lemma propose_below_floor:
  assumes "pw_oracle w = Reply pd"
    and "pd_action pd = Val ''BUY'' \<or> pd_action pd = Val ''SELL''"
    and "jget_default (pd_confidence_score pd) 0 = Some c" and "c < 70"
  shows "propose w L t s eid did =
     (if 0 \<le> c
      then (case pw_save_proposal w of
              InsertRaises e \<Rightarrow> (Inl e, L)
            | InsertNoRow \<Rightarrow>
                (Inr \<lparr>tp_id = None, tp_ticker = t, tp_action = HOLD, tp_quantity = 0,
                      tp_proposed_price = Some (ss_price s),
                      tp_reasoning = fstring_of (pd_reasoning pd) @ floor_note (pw_str_of_num w) c,
                      tp_confidence_score = Some c, tp_analysis_event_id = eid,
                      tp_debate_id = did, tp_status = PENDING\<rparr>, L)
            | Inserted \<Rightarrow>
                (Inr \<lparr>tp_id = Some (Suc (length (trade_proposals L))), tp_ticker = t,
                      tp_action = HOLD, tp_quantity = 0,
                      tp_proposed_price = Some (ss_price s),
                      tp_reasoning = fstring_of (pd_reasoning pd) @ floor_note (pw_str_of_num w) c,
                      tp_confidence_score = Some c, tp_analysis_event_id = eid,
                      tp_debate_id = did, tp_status = PENDING\<rparr>,
                 L\<lparr>trade_proposals := trade_proposals L @
                    [\<lparr>tp_id = Some (Suc (length (trade_proposals L))), tp_ticker = t,
                      tp_action = HOLD, tp_quantity = 0,
                      tp_proposed_price = Some (ss_price s),
                      tp_reasoning = fstring_of (pd_reasoning pd) @ floor_note (pw_str_of_num w) c,
                      tp_confidence_score = Some c, tp_analysis_event_id = eid,
                      tp_debate_id = did, tp_status = PENDING\<rparr>]\<rparr>))
      else (Inl validation_error, L))"
  using assms
  by (simp add: propose_def floor_applies [OF assms(2,3,4)] build_held_proposal
      save_trade_proposal_def Let_def split: insert_outcome.splits)

lemma resolve_snapshot_proposals:
  "resolve_snapshot w L = (r, L') \<Longrightarrow> trade_proposals L' = trade_proposals L"
  by (auto simp: resolve_snapshot_def save_stock_snapshot_def
      split: sum.splits option.splits insert_outcome.splits)

text \<open>
  C5. Let the proposal oracle reply with action BUY or SELL and a confidence below 70
  (an absent confidence is read as 0). Then whatever else the world does, the proposal
  node either stores no proposal, or stores exactly one, which it also puts into the
  state, with action HOLD, quantity 0, the annotation
  " [Rejected: Confidence c < 70 required for trading]" appended to the oracle's
  reasoning, and status PENDING. It does store one when the screening event and the
  debate are on hand, a snapshot is on record, the confidence is not negative (the
  model class refuses a negative one) and the insert goes through.
\<close>

theorem low_confidence_proposal_forced_to_hold:
  assumes "pw_oracle w = Reply pd"
    and "pd_action pd = Val ''BUY'' \<or> pd_action pd = Val ''SELL''"
    and "jget_default (pd_confidence_score pd) 0 = Some c" and "c < 70"
    and "graph_create_proposal_from_debate w L st = (st', L')"
  shows "(trade_proposals L' = trade_proposals L
          \<or> (\<exists>row. trade_proposals L' = trade_proposals L @ [row]
                \<and> st_trade_proposal st' = Some row \<and> held_row w pd c row))
       \<and> ((\<exists>r eid dr s. st_analysis_result st = Some r \<and> res_event_id r = Some eid \<and> eid \<noteq> 0
              \<and> st_debate_result st = Some dr \<and> pw_snapshot w = Inr (Some s))
            \<and> 0 \<le> c \<and> pw_save_proposal w = Inserted
           \<longrightarrow> (\<exists>row. trade_proposals L' = trade_proposals L @ [row]
                \<and> st_trade_proposal st' = Some row \<and> held_row w pd c row))"
proof (intro conjI impI)
  show "trade_proposals L' = trade_proposals L
          \<or> (\<exists>row. trade_proposals L' = trade_proposals L @ [row]
                \<and> st_trade_proposal st' = Some row \<and> held_row w pd c row)"
    using assms(5)
    by (auto simp: graph_create_proposal_from_debate_def Let_def held_row_def
        propose_below_floor [OF assms(1,2,3,4)]
        dest: resolve_snapshot_proposals
        split: if_splits option.splits sum.splits prod.splits insert_outcome.splits)
next
  assume h: "(\<exists>r eid dr s. st_analysis_result st = Some r \<and> res_event_id r = Some eid \<and> eid \<noteq> 0
              \<and> st_debate_result st = Some dr \<and> pw_snapshot w = Inr (Some s))
            \<and> 0 \<le> c \<and> pw_save_proposal w = Inserted"
  then show "\<exists>row. trade_proposals L' = trade_proposals L @ [row]
                \<and> st_trade_proposal st' = Some row \<and> held_row w pd c row"
    using assms(5)
    by (auto simp: graph_create_proposal_from_debate_def Let_def held_row_def
        propose_below_floor [OF assms(1,2,3,4)] resolve_snapshot_def)
qed
theorem low_confidence_proposal_forced_to_hold_witness:
  "pw_oracle ((good_proposal_world ''AAPL'')
       \<lparr>pw_oracle := Reply (buy_10_at_85\<lparr>pd_confidence_score := Val 65\<rparr>)\<rparr>)
     = Reply (buy_10_at_85\<lparr>pd_confidence_score := Val 65\<rparr>)
   \<and> pd_action (buy_10_at_85\<lparr>pd_confidence_score := Val 65\<rparr>) = Val ''BUY''
   \<and> jget_default (pd_confidence_score (buy_10_at_85\<lparr>pd_confidence_score := Val 65\<rparr>)) 0 = Some 65
   \<and> (65::real) < 70
   \<and> trade_proposals (snd (graph_create_proposal_from_debate
        ((good_proposal_world ''AAPL'')
           \<lparr>pw_oracle := Reply (buy_10_at_85\<lparr>pd_confidence_score := Val 65\<rparr>)\<rparr>)
        empty_ledger (debated_state ''AAPL'')))
     = [\<lparr>tp_id = Some 1, tp_ticker = ''AAPL'', tp_action = HOLD, tp_quantity = 0,
         tp_proposed_price = Some 150,
         tp_reasoning = ''converging news [Rejected: Confidence 65 < 70 required for trading]'',
         tp_confidence_score = Some 65, tp_analysis_event_id = Some 1, tp_debate_id = Some 1,
         tp_status = PENDING\<rparr>]"
  using low_confidence_proposal_forced_to_hold
    [of "(good_proposal_world ''AAPL'')
           \<lparr>pw_oracle := Reply (buy_10_at_85\<lparr>pd_confidence_score := Val 65\<rparr>)\<rparr>"
        "buy_10_at_85\<lparr>pd_confidence_score := Val 65\<rparr>" 65 empty_ledger "debated_state ''AAPL''"
        "fst (graph_create_proposal_from_debate
           ((good_proposal_world ''AAPL'')
              \<lparr>pw_oracle := Reply (buy_10_at_85\<lparr>pd_confidence_score := Val 65\<rparr>)\<rparr>)
           empty_ledger (debated_state ''AAPL''))"
        "snd (graph_create_proposal_from_debate
           ((good_proposal_world ''AAPL'')
              \<lparr>pw_oracle := Reply (buy_10_at_85\<lparr>pd_confidence_score := Val 65\<rparr>)\<rparr>)
           empty_ledger (debated_state ''AAPL''))"]
  by (simp add: good_proposal_world_def buy_10_at_85_def debated_state_def initial_state_def
      good_analysis_def graph_create_proposal_from_debate_def resolve_snapshot_def propose_def
      apply_confidence_floor_def build_proposal_def parse_action_def save_trade_proposal_def
      floor_note_def str_of_num_def snapshot_150_def ticker_of_def empty_ledger_def Let_def)

section \<open>Execution\<close>

















section \<open>The confidence floor\<close>

lemma approved_review_is_above_floor:
  assumes "review_proposal w p = Inr d" and "jget (dc_decision d) = Some ''APPROVE''"
  shows "above_floor p"
proof (cases "review_proposal_try w p")
  case (Inl e)
  with assms show ?thesis by (auto simp: review_proposal_def review_failed_def)
next
  case (Inr d')
  with assms(1) have d: "d = d'" by (auto simp: review_proposal_def)
  from Inr obtain d0 where "d' = enforce_floor w p d0"
    by (auto simp: review_proposal_try_def split: sum.splits option.splits oracle_reply.splits)
  with d assms(2) show ?thesis
    by (auto simp: enforce_floor_def Let_def above_floor_def confidence_or_zero_def
        split: if_splits option.splits)
qed

lemma execute_trade_not_approved:
  assumes "jget (dc_decision d) \<noteq> Some ''APPROVE''" and "execute_trade w L p d = (r, L', fx)"
  shows "fx = [] \<and> executed_trades L' = executed_trades L
         \<and> (L' = L \<or> L' = mark_status (tp_id p) REJECTED L) \<and> (\<forall>t. r \<noteq> Inr (Some t))"
  using assms
  by (auto simp: execute_trade_def update_proposal_status_def mark_status_def split: option.splits)

lemma save_stock_snapshot_proposals:
  "save_stock_snapshot oc L s = (r, L') \<Longrightarrow> trade_proposals L' = trade_proposals L"
  by (auto simp: save_stock_snapshot_def split: insert_outcome.splits)

lemma analyze_ticker_proposals:
  "analyze_ticker w L t = (r, L') \<Longrightarrow> trade_proposals L' = trade_proposals L"
  by (auto simp: analyze_ticker_def analyze_ticker_try_def fetch_missing_snapshot_def
      record_analysis_def save_analysis_event_def save_stock_snapshot_def Let_def
      split: sum.splits option.splits oracle_reply.splits prod.splits insert_outcome.splits)

lemma graph_analyze_ticker_frame:
  "graph_analyze_ticker w L st = (st', L') \<Longrightarrow>
     trade_proposals L' = trade_proposals L
     \<and> st_trade_proposal st' = st_trade_proposal st
     \<and> st_portfolio_decision st' = st_portfolio_decision st"
  by (auto simp: graph_analyze_ticker_def dest: analyze_ticker_proposals
      split: if_splits prod.splits)

lemma conduct_debate_proposals:
  "conduct_debate w L t i = (r, L') \<Longrightarrow> trade_proposals L' = trade_proposals L"
  by (auto simp: conduct_debate_def save_debate_def Let_def
      split: option.splits sum.splits insert_outcome.splits)

lemma graph_conduct_debate_frame:
  "graph_conduct_debate w L st = (st', L') \<Longrightarrow>
     trade_proposals L' = trade_proposals L
     \<and> st_trade_proposal st' = st_trade_proposal st
     \<and> st_portfolio_decision st' = st_portfolio_decision st"
  by (auto simp: graph_conduct_debate_def Let_def dest: conduct_debate_proposals
      split: if_splits option.splits sum.splits prod.splits)

lemma propose_effect:
  "propose w L t s eid did = (r, L') \<Longrightarrow>
     (trade_proposals L' = trade_proposals L \<and> (\<forall>p. r = Inr p \<longrightarrow> tp_id p = None))
     \<or> (\<exists>p. r = Inr p \<and> trade_proposals L' = trade_proposals L @ [p]
           \<and> tp_id p = Some (Suc (length (trade_proposals L))) \<and> tp_status p = PENDING)"
  by (auto simp: propose_def save_trade_proposal_def build_proposal_def Let_def
      split: oracle_reply.splits sum.splits prod.splits insert_outcome.splits option.splits if_splits)

lemma graph_create_proposal_effect:
  assumes "graph_create_proposal_from_debate w L st = (st', L')"
    and "st_trade_proposal st = None"
  shows "st_portfolio_decision st' = st_portfolio_decision st
     \<and> ((trade_proposals L' = trade_proposals L
          \<and> (\<forall>p. st_trade_proposal st' = Some p \<longrightarrow> tp_id p = None))
        \<or> (\<exists>p. st_trade_proposal st' = Some p \<and> trade_proposals L' = trade_proposals L @ [p]
              \<and> tp_id p = Some (Suc (length (trade_proposals L))) \<and> tp_status p = PENDING))"
proof -
  have frame: "st_portfolio_decision st' = st_portfolio_decision st"
    using assms(1)
    by (auto simp: graph_create_proposal_from_debate_def Let_def
        split: if_splits option.splits sum.splits prod.splits)
  show ?thesis
  proof (cases "\<exists>dr r1 s L1. truthy_id (case st_analysis_result st of None \<Rightarrow> None | Some r \<Rightarrow> res_event_id r)
        \<and> st_debate_result st = Some dr \<and> resolve_snapshot w L = (Inr s, L1)")
    case False
    with assms have "trade_proposals L' = trade_proposals L \<and> st_trade_proposal st' = None"
      by (auto simp: graph_create_proposal_from_debate_def Let_def
          dest: resolve_snapshot_proposals
          split: if_splits option.splits sum.splits prod.splits)
    with frame show ?thesis by simp
  next
    case True
    then obtain dr s L1 where
      t: "truthy_id (case st_analysis_result st of None \<Rightarrow> None | Some r \<Rightarrow> res_event_id r)"
      and dr: "st_debate_result st = Some dr" and rs: "resolve_snapshot w L = (Inr s, L1)"
      by blast
    from rs have l1: "trade_proposals L1 = trade_proposals L" by (rule resolve_snapshot_proposals)
    obtain r L2 where pr: "propose w L1 (ticker_of st) s
        (case st_analysis_result st of None \<Rightarrow> None | Some r \<Rightarrow> res_event_id r)
        (dr_debate_id dr) = (r, L2)"
      by (cases "propose w L1 (ticker_of st) s
        (case st_analysis_result st of None \<Rightarrow> None | Some r \<Rightarrow> res_event_id r)
        (dr_debate_id dr)")
    from assms t dr rs pr have res: "L' = L2 \<and>
        st' = (case r of Inl e \<Rightarrow> st\<lparr>st_error := Some (msg e)\<rparr>
                       | Inr p \<Rightarrow> st\<lparr>st_trade_proposal := Some p\<rparr>)"
      by (auto simp: graph_create_proposal_from_debate_def Let_def split: sum.splits)
    from propose_effect [OF pr] l1 res assms(2) frame show ?thesis
      by (cases r) auto
  qed
qed
lemma rebalance_step_effect:
  "rebalance_step w L p d = (r, L1, fx) \<Longrightarrow>
     (L1 = L \<and> r \<noteq> Inr False) \<or> (L1 = mark_status (tp_id p) REJECTED L \<and> r = Inr False)"
  by (auto simp: rebalance_step_def confirm_and_sell_def reject_and_return_def
      sell_to_rebalance_def update_proposal_status_def Let_def
      split: option.splits sum.splits prod.splits if_splits)

lemma main_trade_effect:
  "main_trade w L p d = (r, L', fx) \<Longrightarrow>
     (trade_proposals L' = trade_proposals L \<and> (\<exists>e. r = Inl e))
     \<or> (trade_proposals L' = map (set_status (tp_id p) EXECUTED) (trade_proposals L)
        \<and> (\<exists>t. r = Inr (Some t)))"
  by (auto simp: main_trade_def save_executed_trade_def update_proposal_status_def mark_status_def
      Let_def split: option.splits sum.splits prod.splits insert_outcome.splits)

lemma execute_trade_try_effect:
  assumes "execute_trade_try w L p d = (r, L', fx)"
  shows "(trade_proposals L' = trade_proposals L \<and> (\<exists>e. r = Inl e))
     \<or> (trade_proposals L' = map (set_status (tp_id p) REJECTED) (trade_proposals L) \<and> r = Inr None)
     \<or> (trade_proposals L' = map (set_status (tp_id p) EXECUTED) (trade_proposals L)
        \<and> (\<exists>t. r = Inr (Some t)))"
proof -
  obtain r1 L1 fx1 where rs: "rebalance_step w L p d = (r1, L1, fx1)"
    by (cases "rebalance_step w L p d")
  note eff = rebalance_step_effect [OF rs]
  show ?thesis
  proof (cases r1)
    case (Inl e)
    with rs eff assms show ?thesis by (auto simp: execute_trade_try_def)
  next
    case (Inr go_on)
    show ?thesis
    proof (cases go_on)
      case False
      with Inr rs eff assms show ?thesis
        by (auto simp: execute_trade_try_def mark_status_def)
    next
      case True
      with Inr eff have l1: "L1 = L" by auto
      obtain r2 L2 fx2 where mt: "main_trade w L p d = (r2, L2, fx2)"
        by (cases "main_trade w L p d")
      from True Inr rs l1 mt assms have "r = r2 \<and> L' = L2"
        by (auto simp: execute_trade_try_def)
      with main_trade_effect [OF mt] show ?thesis by auto
    qed
  qed
qed

lemma execute_trade_effect:
  assumes "execute_trade w L p d = (r, L', fx)"
  shows "trade_proposals L' = trade_proposals L
     \<or> trade_proposals L' = map (set_status (tp_id p) REJECTED) (trade_proposals L)
     \<or> (trade_proposals L' = map (set_status (tp_id p) EXECUTED) (trade_proposals L)
        \<and> jget (dc_decision d) = Some ''APPROVE'')"
proof (cases "jget (dc_decision d) = Some ''APPROVE''")
  case False
  with assms show ?thesis
    by (auto simp: execute_trade_def update_proposal_status_def mark_status_def split: option.splits)
next
  case True
  obtain r1 L1 fx1 where tr: "execute_trade_try w L p d = (r1, L1, fx1)"
    by (cases "execute_trade_try w L p d")
  note eff = execute_trade_try_effect [OF tr]
  show ?thesis
  proof (cases r1)
    case (Inr res)
    with True tr assms have "L' = L1" by (auto simp: execute_trade_def)
    with eff Inr True show ?thesis by auto
  next
    case (Inl e)
    with eff have same: "trade_proposals L1 = trade_proposals L" by auto
    from Inl True tr assms have "L' = L1 \<or> L' = mark_status (tp_id p) REJECTED L1"
      by (auto simp: execute_trade_def update_proposal_status_def split: option.splits)
    with same show ?thesis by (auto simp: mark_status_def)
  qed
qed

lemma graph_execute_trade_effect:
  assumes "graph_execute_trade w L st = (st', L', fx)"
  shows "trade_proposals L' = trade_proposals L
     \<or> (\<exists>p d. st_trade_proposal st = Some p \<and> st_portfolio_decision st = Some d
          \<and> (trade_proposals L' = map (set_status (tp_id p) REJECTED) (trade_proposals L)
             \<or> trade_proposals L' = map (set_status (tp_id p) EXECUTED) (trade_proposals L)
               \<and> jget (dc_decision d) = Some ''APPROVE''))"
proof (cases "\<exists>p d. st_trade_proposal st = Some p \<and> st_portfolio_decision st = Some d
    \<and> \<not> decision_empty d")
  case False
  with assms have "L' = L"
    by (auto simp: graph_execute_trade_def split: option.splits if_splits)
  then show ?thesis by simp
next
  case True
  then obtain p d where p: "st_trade_proposal st = Some p" and d: "st_portfolio_decision st = Some d"
    and ne: "\<not> decision_empty d" by blast
  obtain r1 L1 fx1 where ex: "execute_trade w L p d = (r1, L1, fx1)"
    by (cases "execute_trade w L p d")
  from assms p d ne ex have "L' = L1"
    by (auto simp: graph_execute_trade_def split: sum.splits option.splits)
  with execute_trade_effect [OF ex] p d show ?thesis by auto
qed

lemma floor_row_set_status_rejected:
  "floor_row r \<Longrightarrow> floor_row (set_status pid REJECTED r)"
  by (auto simp: floor_row_def set_status_def above_floor_def)

lemma executed_above_floor_rejected:
  "list_all floor_row rows \<Longrightarrow> list_all floor_row (map (set_status pid REJECTED) rows)"
  by (induction rows) (auto simp: floor_row_set_status_rejected)

lemma set_status_other_id:
  "id_within n r \<Longrightarrow> set_status (Some (Suc n)) st r = r"
  by (auto simp: id_within_def set_status_def split: option.splits)

lemma map_set_status_fresh:
  "list_all (id_within n) rows \<Longrightarrow> map (set_status (Some (Suc n)) st) rows = rows"
  by (induction rows) (auto simp: set_status_other_id)

lemma id_within_set_status: "id_within n (set_status pid st r) = id_within n r"
  by (simp add: id_within_def set_status_def)

lemma ids_set_status:
  "list_all (id_within n) (map (set_status pid st) rows) = list_all (id_within n) rows"
  by (induction rows) (auto simp: id_within_set_status)

lemma id_within_mono: "id_within n r \<Longrightarrow> id_within (Suc n) r"
  by (auto simp: id_within_def split: option.splits)

lemma ids_mono: "list_all (id_within n) rows \<Longrightarrow> list_all (id_within (Suc n)) rows"
  by (induction rows) (auto simp: id_within_mono)

lemma set_status_None: "map (set_status None st) rows = rows"
  by (induction rows) (auto simp: set_status_def)
lemma floor_inv_cong:
  "floor_inv L \<Longrightarrow> trade_proposals L' = trade_proposals L \<Longrightarrow> floor_inv L'"
  by (simp add: floor_inv_def serial_ids_def executed_above_floor_def)

lemma floor_inv_rejected:
  assumes "floor_inv L"
    and "trade_proposals L' = map (set_status pid REJECTED) (trade_proposals L)"
  shows "floor_inv L'"
  using assms
  by (simp add: floor_inv_def serial_ids_def executed_above_floor_def ids_set_status
      executed_above_floor_rejected)

lemma floor_inv_appended:
  assumes "floor_inv L" and "trade_proposals L' = trade_proposals L @ [p]"
    and "tp_id p = Some (Suc (length (trade_proposals L)))" and "tp_status p = PENDING"
  shows "floor_inv L'"
  using assms
  by (auto simp: floor_inv_def serial_ids_def executed_above_floor_def ids_mono id_within_def
      floor_row_def)

lemma floor_inv_new_row_marked:
  assumes "floor_inv L" and "trade_proposals L3 = trade_proposals L @ [p]"
    and "tp_id p = Some (Suc (length (trade_proposals L)))" and "tp_status p = PENDING"
    and "trade_proposals L' = map (set_status (tp_id p) st) (trade_proposals L3)"
    and "st = EXECUTED \<longrightarrow> above_floor p"
  shows "floor_inv L'"
proof -
  from assms(1) have ids: "list_all (id_within (length (trade_proposals L))) (trade_proposals L)"
    and fl: "list_all floor_row (trade_proposals L)"
    by (simp_all add: floor_inv_def serial_ids_def executed_above_floor_def)
  have rows: "trade_proposals L' = trade_proposals L @ [p\<lparr>tp_status := st\<rparr>]"
    using assms(2,3,5) map_set_status_fresh [OF ids] by (simp add: set_status_def)
  have "floor_row (p\<lparr>tp_status := st\<rparr>)"
    using assms(6) by (auto simp: floor_row_def above_floor_def)
  moreover have "id_within (Suc (length (trade_proposals L))) (p\<lparr>tp_status := st\<rparr>)"
    using assms(3) by (simp add: id_within_def)
  ultimately show ?thesis
    using rows ids fl
    by (simp add: floor_inv_def serial_ids_def executed_above_floor_def ids_mono)
qed

lemma graph_review_proposal_frame:
  "st_trade_proposal (graph_review_proposal w st) = st_trade_proposal st"
  by (simp add: graph_review_proposal_def split: option.splits sum.splits)

lemma should_execute_true:
  assumes "should_execute (graph_review_proposal w st) = Inr True"
    and "st_portfolio_decision st = None"
  shows "\<exists>p d. st_trade_proposal st = Some p \<and> review_proposal w p = Inr d
           \<and> st_portfolio_decision (graph_review_proposal w st) = Some d
           \<and> jget (dc_decision d) = Some ''APPROVE''"
  using assms
  by (auto simp: should_execute_def graph_review_proposal_def
      split: option.splits sum.splits)

lemma graph_invoke_skipped:
  assumes "graph_analyze_ticker (tw_analyze w) L st0 = (st1, L1)"
    and "should_debate st1 \<noteq> Inr True"
    and "graph_invoke w L st0 = (r, L', fx)"
  shows "L' = L1 \<and> fx = []"
proof (cases "should_debate st1")
  case (Inl e)
  with assms(1,3) show ?thesis by (simp add: graph_invoke_def)
next
  case (Inr b)
  with assms(2) have "b = False" by simp
  with Inr assms(1,3) show ?thesis by (simp add: graph_invoke_def)
qed

lemma graph_invoke_not_executed:
  assumes "graph_analyze_ticker (tw_analyze w) L st0 = (st1, L1)"
    and "should_debate st1 = Inr True"
    and "graph_conduct_debate (tw_debate w) L1 st1 = (st2, L2)"
    and "graph_create_proposal_from_debate (tw_proposal w) L2 st2 = (st3, L3)"
    and "should_execute (graph_review_proposal (tw_review w) st3) \<noteq> Inr True"
    and "graph_invoke w L st0 = (r, L', fx)"
  shows "L' = L3 \<and> fx = []"
proof (cases "should_execute (graph_review_proposal (tw_review w) st3)")
  case (Inl e)
  with assms(1,2,3,4,6) show ?thesis by (simp add: graph_invoke_def Let_def)
next
  case (Inr b)
  with assms(5) have "b = False" by simp
  with Inr assms(1,2,3,4,6) show ?thesis by (simp add: graph_invoke_def Let_def)
qed

lemma graph_invoke_executed:
  assumes "graph_analyze_ticker (tw_analyze w) L st0 = (st1, L1)"
    and "should_debate st1 = Inr True"
    and "graph_conduct_debate (tw_debate w) L1 st1 = (st2, L2)"
    and "graph_create_proposal_from_debate (tw_proposal w) L2 st2 = (st3, L3)"
    and "should_execute (graph_review_proposal (tw_review w) st3) = Inr True"
    and "graph_execute_trade (tw_execute w) L3 (graph_review_proposal (tw_review w) st3)
           = (st5, L5, fx5)"
    and "graph_invoke w L st0 = (r, L', fx)"
  shows "L' = L5 \<and> fx = fx5 \<and> r = Inr st5"
  using assms by (simp add: graph_invoke_def Let_def)

lemma graph_run_keeps_floor:
  assumes inv: "floor_inv L" and run: "graph_run w L t = (r, L', fx)"
  shows "floor_inv L'"
proof -
  obtain st1 L1 where a: "graph_analyze_ticker (tw_analyze w) L (initial_state t) = (st1, L1)"
    by (cases "graph_analyze_ticker (tw_analyze w) L (initial_state t)")
  from graph_analyze_ticker_frame [OF a]
  have f1: "trade_proposals L1 = trade_proposals L" "st_trade_proposal st1 = None"
    "st_portfolio_decision st1 = None"
    by (simp_all add: initial_state_def)
  from inv f1(1) have inv1: "floor_inv L1" by (rule floor_inv_cong)
  show ?thesis
  proof (cases "should_debate st1 = Inr True")
    case False
    with a run have "L' = L1"
      using graph_invoke_skipped [of w L "initial_state t" st1 L1 r L' fx]
      by (simp add: graph_run_def)
    with inv1 show ?thesis by simp
  next
    case True
    obtain st2 L2 where b: "graph_conduct_debate (tw_debate w) L1 st1 = (st2, L2)"
      by (cases "graph_conduct_debate (tw_debate w) L1 st1")
    from graph_conduct_debate_frame [OF b] f1
    have f2: "trade_proposals L2 = trade_proposals L1" "st_trade_proposal st2 = None"
      "st_portfolio_decision st2 = None"
      by simp_all
    from inv1 f2(1) have inv2: "floor_inv L2" by (rule floor_inv_cong)
    obtain st3 L3 where c: "graph_create_proposal_from_debate (tw_proposal w) L2 st2 = (st3, L3)"
      by (cases "graph_create_proposal_from_debate (tw_proposal w) L2 st2")
    note eff = graph_create_proposal_effect [OF c f2(2)]
    from eff f2(3) have d3: "st_portfolio_decision st3 = None" by simp
    have inv3: "floor_inv L3"
      using eff inv2 floor_inv_cong floor_inv_appended by blast
    show ?thesis
    proof (cases "should_execute (graph_review_proposal (tw_review w) st3) = Inr True")
      case False
      with a True b c run have "L' = L3"
        using graph_invoke_not_executed [of w L "initial_state t" st1 L1 st2 L2 st3 L3 r L' fx]
        by (simp add: graph_run_def)
      with inv3 show ?thesis by simp
    next
      case approve: True
      from should_execute_true [OF approve d3]
      obtain p d where p: "st_trade_proposal st3 = Some p"
        and rv: "review_proposal (tw_review w) p = Inr d"
        and d4: "st_portfolio_decision (graph_review_proposal (tw_review w) st3) = Some d"
        and ap: "jget (dc_decision d) = Some ''APPROVE''"
        by blast
      from rv ap have above: "above_floor p" by (rule approved_review_is_above_floor)
      obtain st5 L5 fx5 where e:
        "graph_execute_trade (tw_execute w) L3 (graph_review_proposal (tw_review w) st3)
           = (st5, L5, fx5)"
        by (cases "graph_execute_trade (tw_execute w) L3 (graph_review_proposal (tw_review w) st3)")
      from a True b c approve e run have l': "L' = L5"
        using graph_invoke_executed [of w L "initial_state t" st1 L1 st2 L2 st3 L3 st5 L5 fx5 r L' fx]
        by (simp add: graph_run_def)
      from graph_execute_trade_effect [OF e] p d4 graph_review_proposal_frame [of "tw_review w" st3]
      have cases5: "trade_proposals L5 = trade_proposals L3
          \<or> trade_proposals L5 = map (set_status (tp_id p) REJECTED) (trade_proposals L3)
          \<or> trade_proposals L5 = map (set_status (tp_id p) EXECUTED) (trade_proposals L3)"
        by auto
      from eff p have shape: "(trade_proposals L3 = trade_proposals L2 \<and> tp_id p = None)
          \<or> (trade_proposals L3 = trade_proposals L2 @ [p]
             \<and> tp_id p = Some (Suc (length (trade_proposals L2))) \<and> tp_status p = PENDING)"
        by auto
      have "floor_inv L5"
      proof (cases "tp_id p = None")
        case True
        with cases5 have "trade_proposals L5 = trade_proposals L3"
          by (auto simp: set_status_None)
        with inv3 show ?thesis by (rule floor_inv_cong)
      next
        case False
        with shape have sh: "trade_proposals L3 = trade_proposals L2 @ [p]"
          "tp_id p = Some (Suc (length (trade_proposals L2)))" "tp_status p = PENDING"
          by auto
        from cases5 show ?thesis
        proof (elim disjE)
          assume "trade_proposals L5 = trade_proposals L3"
          with inv3 show ?thesis by (rule floor_inv_cong)
        next
          assume "trade_proposals L5 = map (set_status (tp_id p) REJECTED) (trade_proposals L3)"
          with inv3 show ?thesis by (rule floor_inv_rejected)
        next
          assume m: "trade_proposals L5 = map (set_status (tp_id p) EXECUTED) (trade_proposals L3)"
          show ?thesis
            using floor_inv_new_row_marked [OF inv2 sh(1) sh(2) sh(3) m] above by simp
        qed
      qed
      with l' show ?thesis by simp
    qed
  qed
qed
lemma update_one_proposals: "trade_proposals (update_one w L) = trade_proposals L"
  by (auto simp: update_one_def save_stock_snapshot_def split: sum.splits insert_outcome.splits)

lemma update_stock_data_proposals:
  "trade_proposals (update_stock_data ws i stocks L) = trade_proposals L"
  by (induction stocks arbitrary: i L) (auto simp: update_one_proposals)

lemma process_ticker_keeps_floor:
  assumes "floor_inv (sys_ledger s)"
  shows "floor_inv (sys_ledger (process_ticker w t s))"
proof -
  obtain r L1 fx where g: "graph_run w (sys_ledger s) t = (r, L1, fx)"
    by (cases "graph_run w (sys_ledger s) t")
  from assms g have "floor_inv L1" by (rule graph_run_keeps_floor)
  with g show ?thesis by (simp add: process_ticker_def)
qed

lemma process_all_keeps_floor:
  "floor_inv (sys_ledger s) \<Longrightarrow> floor_inv (sys_ledger (process_all ws i stocks s))"
proof (induction stocks arbitrary: i s)
  case Nil
  then show ?case by simp
next
  case (Cons t rest)
  from Cons.prems have "floor_inv (sys_ledger (process_ticker (sw_pipeline (ws i)) t s))"
    by (rule process_ticker_keeps_floor)
  then have "floor_inv (sys_ledger
      ((process_ticker (sw_pipeline (ws i)) t s)
         \<lparr>sys_trace := sys_trace (process_ticker (sw_pipeline (ws i)) t s) @ [Did (Sleep 5)]\<rparr>))"
    by simp
  then show ?case
    using Cons.IH by (simp add: Let_def)
qed

lemma run_cycle_keeps_floor:
  assumes "floor_inv (sys_ledger s)"
  shows "floor_inv (sys_ledger (run_cycle w stocks s))"
proof -
  have "floor_inv (update_stock_data (cw_stock w) 0 stocks (sys_ledger s))"
    using assms update_stock_data_proposals by (rule floor_inv_cong)
  then show ?thesis
    by (simp add: run_cycle_def process_all_keeps_floor)
qed

lemma should_run_ledger:
  "sys_ledger (snd (should_run_trading_cycle w s)) = sys_ledger s"
  by (simp add: should_run_trading_cycle_def Let_def split: sum.splits)

lemma run_round_keeps_floor:
  assumes "floor_inv (sys_ledger s)"
  shows "floor_inv (sys_ledger (run_round stocks iv w s))"
proof -
  obtain r s1 where sr: "should_run_trading_cycle w s = (r, s1)"
    by (cases "should_run_trading_cycle w s")
  with should_run_ledger [of w s] assms have f1: "floor_inv (sys_ledger s1)" by simp
  show ?thesis
  proof (cases r)
    case (Inl e)
    with sr f1 show ?thesis by (simp add: run_round_def)
  next
    case (Inr go)
    with sr f1 show ?thesis
      by (cases go) (simp_all add: run_round_def Let_def run_cycle_keeps_floor)
  qed
qed

lemma run_keeps_floor:
  "floor_inv (sys_ledger s) \<Longrightarrow> floor_inv (sys_ledger (run stocks iv ws s))"
  by (induction ws arbitrary: s) (auto simp: run_round_keeps_floor)

lemma floor_inv_rows:
  assumes "floor_inv L" and "r \<in> set (trade_proposals L)" and "tp_status r = EXECUTED"
  shows "\<exists>c. tp_confidence_score r = Some c \<and> 70 \<le> c"
proof -
  from assms(1,2) have "floor_row r"
    by (auto simp: floor_inv_def executed_above_floor_def list_all_iff)
  with assms(3) show ?thesis
    by (auto simp: floor_row_def above_floor_def split: option.splits)
qed

lemma gate_rejects_below_floor:
  assumes "review_proposal w p = Inr d" and "\<not> above_floor p"
  shows "jget (dc_decision d) \<noteq> Some ''APPROVE''"
  using assms approved_review_is_above_floor by blast

text \<open>
  C2. The engine keeps the invariant that the proposal ids are serial and every proposal
  row with status EXECUTED carries a confidence score of at least 70: if it holds of
  the ledger the main loop starts from (it holds of the empty ledger), it holds after any
  number of rounds over any list of tickers in any world. The floor is enforced at the
  risk gate for every proposal, wherever it comes from: a review of a proposal whose
  score is missing or below 70 never returns APPROVE, whatever the oracle says, so the
  gate takes the edge that does not execute; and \<open>execute_trade\<close>, given that
  decision, makes no broker call, stores no trade, and leaves the ledger as it was or
  marks the proposal REJECTED.
\<close>

theorem executed_implies_confidence_floor:
  "(floor_inv (sys_ledger s) \<longrightarrow>
       floor_inv (sys_ledger (run stocks iv ws s))
     \<and> (\<forall>r \<in> set (trade_proposals (sys_ledger (run stocks iv ws s))).
           tp_status r = EXECUTED \<longrightarrow> (\<exists>c. tp_confidence_score r = Some c \<and> 70 \<le> c)))
   \<and> (review_proposal rw p = Inr d \<and> \<not> above_floor p \<longrightarrow>
       jget (dc_decision d) \<noteq> Some ''APPROVE''
     \<and> should_execute (st\<lparr>st_portfolio_decision := Some d\<rparr>) = Inr False)
   \<and> (review_proposal rw p = Inr d \<and> \<not> above_floor p \<and> execute_trade xw L p d = (r, L', fx) \<longrightarrow>
       fx = [] \<and> executed_trades L' = executed_trades L
     \<and> (L' = L \<or> L' = mark_status (tp_id p) REJECTED L))"
proof (intro conjI impI ballI)
  assume "floor_inv (sys_ledger s)"
  then show "floor_inv (sys_ledger (run stocks iv ws s))" by (rule run_keeps_floor)
next
  fix row
  assume "floor_inv (sys_ledger s)"
    and "row \<in> set (trade_proposals (sys_ledger (run stocks iv ws s)))"
    and "tp_status row = EXECUTED"
  then show "\<exists>c. tp_confidence_score row = Some c \<and> 70 \<le> c"
    using run_keeps_floor floor_inv_rows by blast
next
  assume h: "review_proposal rw p = Inr d \<and> \<not> above_floor p"
  then show g: "jget (dc_decision d) \<noteq> Some ''APPROVE''"
    using gate_rejects_below_floor by blast
  then show "should_execute (st\<lparr>st_portfolio_decision := Some d\<rparr>) = Inr False"
    by (simp add: should_execute_def)
next
  assume h: "review_proposal rw p = Inr d \<and> \<not> above_floor p \<and> execute_trade xw L p d = (r, L', fx)"
  then have g: "jget (dc_decision d) \<noteq> Some ''APPROVE''"
    using gate_rejects_below_floor by blast
  from h have e: "execute_trade xw L p d = (r, L', fx)" by simp
  from execute_trade_not_approved [OF g e]
  show "fx = []" "executed_trades L' = executed_trades L"
    "L' = L \<or> L' = mark_status (tp_id p) REJECTED L"
    by simp_all
qed

theorem executed_implies_confidence_floor_witness:
  "floor_inv (sys_ledger fresh_system)
   \<and> map (\<lambda>r. (tp_id r, tp_status r, tp_confidence_score r))
         (trade_proposals (sys_ledger (run [''AAPL''] 60 [good_cycle_world 1000000] fresh_system)))
       = [(Some 1, EXECUTED, Some 85)]
   \<and> \<not> above_floor (pending_buy 65)
   \<and> review_proposal good_review_world (pending_buy 65)
       = Inr (approve\<lparr>dc_decision := Val ''REJECT'',
                dc_reasoning := Val ''strong evidence [Rejected: Confidence 65 < 70 required]''\<rparr>)
   \<and> execute_trade (good_exec_world 1000) (ledger_with (pending_buy 65)) (pending_buy 65)
         (approve\<lparr>dc_decision := Val ''REJECT'',
                dc_reasoning := Val ''strong evidence [Rejected: Confidence 65 < 70 required]''\<rparr>)
       = (Inr None, ledger_with ((pending_buy 65)\<lparr>tp_status := REJECTED\<rparr>), [])"
  using executed_implies_confidence_floor
    [where s = fresh_system and stocks = "[''AAPL'']" and iv = 60
       and ws = "[good_cycle_world 1000000]" and rw = good_review_world
       and p = "pending_buy 65"
       and d = "approve\<lparr>dc_decision := Val ''REJECT'',
                dc_reasoning := Val ''strong evidence [Rejected: Confidence 65 < 70 required]''\<rparr>"
       and st = "initial_state ''AAPL''" and xw = "good_exec_world 1000"
       and L = "ledger_with (pending_buy 65)" and r = "Inr None"
       and L' = "ledger_with ((pending_buy 65)\<lparr>tp_status := REJECTED\<rparr>)" and fx = "[]"]
  by (simp add: all_defs Let_def)

section \<open>The main loop and the lock\<close>

lemma lock_free_append: "lock_free (xs @ ys) = (lock_free xs \<and> lock_free ys)"
  by (auto simp: lock_free_def)

lemma lock_free_effects: "lock_free (map Did fx)"
  by (auto simp: lock_free_def)

lemma process_ticker_trace:
  "\<exists>tr. sys_trace (process_ticker w t s) = sys_trace s @ tr \<and> lock_free tr"
proof -
  obtain r L1 fx where g: "graph_run w (sys_ledger s) t = (r, L1, fx)"
    by (cases "graph_run w (sys_ledger s) t")
  have "lock_free ([TickerStarted t] @ map Did fx)"
    by (auto simp: lock_free_def)
  with g show ?thesis by (simp add: process_ticker_def)
qed

lemma process_all_trace:
  "\<exists>tr. sys_trace (process_all ws i stocks s) = sys_trace s @ tr \<and> lock_free tr"
proof (induction stocks arbitrary: i s)
  case Nil
  show ?case by (simp add: lock_free_def)
next
  case (Cons t rest)
  obtain tr1 where t1: "sys_trace (process_ticker (sw_pipeline (ws i)) t s) = sys_trace s @ tr1"
    and q1: "lock_free tr1"
    using process_ticker_trace by blast
  define s1 where "s1 = (process_ticker (sw_pipeline (ws i)) t s)
       \<lparr>sys_trace := sys_trace (process_ticker (sw_pipeline (ws i)) t s) @ [Did (Sleep 5)]\<rparr>"
  obtain tr2 where t2: "sys_trace (process_all ws (Suc i) rest s1) = sys_trace s1 @ tr2"
    and q2: "lock_free tr2"
    using Cons.IH by blast
  have "sys_trace (process_all ws i (t # rest) s) = sys_trace s @ (tr1 @ [Did (Sleep 5)] @ tr2)"
    using t1 t2 by (simp add: s1_def Let_def)
  moreover have "lock_free (tr1 @ [Did (Sleep 5)] @ tr2)"
    using q1 q2 by (auto simp: lock_free_def)
  ultimately show ?case by blast
qed

lemma run_cycle_trace:
  "\<exists>tr. sys_trace (run_cycle w stocks s) = sys_trace s @ tr \<and> lock_free tr"
  using process_all_trace
    [of "cw_stock w" 0 stocks "s\<lparr>sys_ledger := update_stock_data (cw_stock w) 0 stocks (sys_ledger s)\<rparr>"]
  by (simp add: run_cycle_def)

lemma should_run_trace:
  "\<exists>tr. sys_trace (snd (should_run_trading_cycle w s)) = sys_trace s @ tr \<and> lock_free tr"
  by (auto simp: should_run_trading_cycle_def Let_def lock_free_def split: sum.splits)

lemma run_round_trace:
  "\<exists>tr. sys_trace (run_round stocks iv w s) = sys_trace s @ tr \<and> lock_free tr"
proof -
  obtain r s1 where sr: "should_run_trading_cycle w s = (r, s1)"
    by (cases "should_run_trading_cycle w s")
  with should_run_trace [of w s] obtain tr1 where t1: "sys_trace s1 = sys_trace s @ tr1"
    and q1: "lock_free tr1" by auto
  show ?thesis
  proof (cases r)
    case (Inl e)
    with sr t1 have "sys_trace (run_round stocks iv w s) = sys_trace s @ (tr1 @ [Did (Sleep 60)])"
      by (simp add: run_round_def)
    moreover have "lock_free (tr1 @ [Did (Sleep 60)])"
      using q1 by (auto simp: lock_free_def)
    ultimately show ?thesis by blast
  next
    case (Inr go)
    show ?thesis
    proof (cases go)
      case False
      with Inr sr t1 have "sys_trace (run_round stocks iv w s)
          = sys_trace s @ (tr1 @ [Did (Sleep (iv * 60))])"
        by (simp add: run_round_def)
      moreover have "lock_free (tr1 @ [Did (Sleep (iv * 60))])"
        using q1 by (auto simp: lock_free_def)
      ultimately show ?thesis by blast
    next
      case True
      obtain tr2 where t2: "sys_trace (run_cycle w stocks s1) = sys_trace s1 @ tr2"
        and q2: "lock_free tr2"
        using run_cycle_trace by blast
      from True Inr sr t1 t2 have "sys_trace (run_round stocks iv w s)
          = sys_trace s @ (tr1 @ tr2 @ [Did (Sleep (iv * 60))])"
        by (simp add: run_round_def Let_def)
      moreover have "lock_free (tr1 @ tr2 @ [Did (Sleep (iv * 60))])"
        using q1 q2 by (auto simp: lock_free_def)
      ultimately show ?thesis by blast
    qed
  qed
qed

lemma run_trace:
  "\<exists>tr. sys_trace (run stocks iv ws s) = sys_trace s @ tr \<and> lock_free tr"
proof (induction ws arbitrary: s)
  case Nil
  show ?case by (simp add: lock_free_def)
next
  case (Cons w ws)
  obtain tr1 where t1: "sys_trace (run_round stocks iv w s) = sys_trace s @ tr1"
    and q1: "lock_free tr1"
    using run_round_trace by blast
  obtain tr2 where t2: "sys_trace (run stocks iv ws (run_round stocks iv w s))
      = sys_trace (run_round stocks iv w s) @ tr2" and q2: "lock_free tr2"
    using Cons.IH by blast
  from t1 t2 have "sys_trace (run stocks iv (w # ws) s) = sys_trace s @ (tr1 @ tr2)" by simp
  moreover from q1 q2 have "lock_free (tr1 @ tr2)" by (simp add: lock_free_append)
  ultimately show ?case by blast
qed

lemma timed_out_acquire:
  assumes "lw_connect w = None"
    and "wait_for_lock lk (lw_start w) (lw_attempts w) = Some (Inr False)"
  shows "\<exists>s'. acquire lk w = Some (Some timeout_error, s') \<and> \<not> body_ran s' \<and> \<not> lock_held s'"
  using assms
  by (simp add: acquire_def Let_def fresh_session_def finally_with_cursor_def)

text \<open>
  C4, as the code has it. The main loop never touches the advisory lock: whatever the
  world does, the trace that any number of rounds appends contains no acquiring and no
  releasing of the lock, so the check of the daily cap and the cycle run without it.
  \<open>GlobalPromptLock.acquire\<close> itself fails closed: when the wait times out, the
  \<open>with\<close> statement raises the timeout error, the protected block does not run and
  the lock is not held.
\<close>

theorem cycle_runs_without_the_lock:
  "(\<exists>tr. sys_trace (run stocks iv ws s) = sys_trace s @ tr \<and> lock_free tr)
   \<and> (lw_connect w = None \<and> wait_for_lock lk (lw_start w) (lw_attempts w) = Some (Inr False) \<longrightarrow>
        (\<exists>s'. acquire lk w = Some (Some timeout_error, s') \<and> \<not> body_ran s' \<and> \<not> lock_held s'))"
  using run_trace timed_out_acquire by blast

theorem cycle_runs_without_the_lock_witness:
  "sys_trace (run [''AAPL''] 60 [good_cycle_world 1000000] fresh_system)
     = [MarketStatusChecked, HasTradedChecked, TickerStarted ''AAPL'',
        Did (Submit ''AAPL'' (Some 10) ''BUY''), Did (Sleep 5), Did (Sleep 3600)]
   \<and> lw_connect \<lparr>lw_connect = None, lw_start = 0,
         lw_attempts = [(Inr False, 1), (Inr False, 121)],
         lw_release = None, lw_body = None\<rparr> = None
   \<and> wait_for_lock \<lparr>lock_key = 42, retry_interval = 1/2, timeout_seconds = 120\<rparr> 0
         [(Inr False, 1), (Inr False, 121)] = Some (Inr False)
   \<and> acquire \<lparr>lock_key = 42, retry_interval = 1/2, timeout_seconds = 120\<rparr>
         \<lparr>lw_connect = None, lw_start = 0,
          lw_attempts = [(Inr False, 1), (Inr False, 121)],
          lw_release = None, lw_body = None\<rparr>
       = Some (Some timeout_error,
           \<lparr>conn_open = False, cursor_open = False, lock_held = False, body_ran = False,
            warnings = []\<rparr>)"
  using cycle_runs_without_the_lock
    [of "[''AAPL'']" 60 "[good_cycle_world 1000000]" fresh_system
        "\<lparr>lw_connect = None, lw_start = 0,
          lw_attempts = [(Inr False, 1), (Inr False, 121)],
          lw_release = None, lw_body = None\<rparr>"
        "\<lparr>lock_key = 42, retry_interval = 1/2, timeout_seconds = 120\<rparr>"]
  by (simp add: all_defs Let_def)

text \<open>
  The claim as written fails: in a round with an open market the daily cap is checked
  and a ticker's pipeline is started while the lock is not held.
\<close>

theorem cycle_is_not_under_the_lock:
  "\<not> under_lock False (sys_trace (run [''AAPL''] 60 [good_cycle_world 1000000] fresh_system))"
  by (simp add: all_defs Let_def)

section \<open>The daily cap\<close>

text \<open>
  What the engine does enforce: once a trade is on record for the current day, a later
  round of the main loop leaves the ledger as it is.
\<close>

lemma later_round_same_day_skips:
  assumes "trades_today (sys_ledger s) (cw_now w) \<noteq> []"
  shows "sys_ledger (run_round stocks iv w s) = sys_ledger s"
  using assms
  by (auto simp: run_round_def should_run_trading_cycle_def has_traded_today_def Let_def
      split: option.splits)


section \<open>Properties of the lock\<close>

lemma wait_for_lock_returns:
  "\<exists>a \<in> set xs. decisive lk start a \<Longrightarrow> \<exists>r. wait_for_lock lk start xs = Some r"
proof (induction xs)
  case Nil
  then show ?case by simp
next
  case (Cons a xs)
  obtain r t where a: "a = (r, t)" by (cases a)
  show ?case
  proof (cases r)
    case (Inl e)
    with a show ?thesis by simp
  next
    case (Inr acquired)
    show ?thesis
    proof (cases "acquired \<or> t - start > timeout_seconds lk")
      case True
      with a Inr show ?thesis by auto
    next
      case False
      with a Inr Cons.prems have "\<exists>a \<in> set xs. decisive lk start a" by auto
      then have "\<exists>r. wait_for_lock lk start xs = Some r" by (rule Cons.IH)
      with a Inr False show ?thesis by simp
    qed
  qed
qed

lemma finally_closes:
  "\<not> conn_open (finally_with_cursor w acq s) \<and> \<not> cursor_open (finally_with_cursor w acq s)"
  by (simp add: finally_with_cursor_def Let_def)

lemma finally_body_ran:
  "body_ran (finally_with_cursor w acq s) = body_ran s"
  by (simp add: finally_with_cursor_def Let_def release_def split: option.splits)

lemma finally_lock_not_acquired:
  "lock_held (finally_with_cursor w False s) = lock_held s"
  by (simp add: finally_with_cursor_def Let_def)

lemma finally_lock_acquired:
  "lock_held (finally_with_cursor w True s) \<Longrightarrow>
     lw_release w \<noteq> None \<and> release_warning \<in> set (warnings (finally_with_cursor w True s))"
  by (auto simp: finally_with_cursor_def Let_def release_def split: option.splits)

text \<open>
  C9. Every exit of \<open>with lock.acquire()\<close> leaves the session cleaned up. If a round of
  the wait is decisive the statement ends. Whenever it ends: the connection and the
  cursor are closed; the lock is no longer held unless the unlock statement itself
  raised, and then the warning was logged; when the protected block ran (normally or
  raising) the statement ends exactly as the block did, so a failed release is never
  raised; when the block did not run (connect or the wait raised, or the wait timed
  out) an exception leaves the statement and the lock is not held; a timed-out wait
  raises the timeout error without running the block.
\<close>

theorem acquire_releases_on_every_exit:
  "((\<exists>a \<in> set (lw_attempts w). decisive lk (lw_start w) a) \<longrightarrow> (\<exists>r. acquire lk w = Some r))
   \<and> (acquire lk w = Some (out, s) \<longrightarrow>
        \<not> conn_open s \<and> \<not> cursor_open s
        \<and> (lock_held s \<longrightarrow> lw_release w \<noteq> None \<and> release_warning \<in> set (warnings s))
        \<and> (body_ran s \<longrightarrow> out = lw_body w)
        \<and> (\<not> body_ran s \<longrightarrow> out \<noteq> None \<and> \<not> lock_held s)
        \<and> (lw_connect w = None
             \<and> wait_for_lock lk (lw_start w) (lw_attempts w) = Some (Inr False)
             \<longrightarrow> out = Some timeout_error \<and> \<not> body_ran s))"
proof (intro conjI impI)
  assume "\<exists>a \<in> set (lw_attempts w). decisive lk (lw_start w) a"
  then obtain r where "wait_for_lock lk (lw_start w) (lw_attempts w) = Some r"
    using wait_for_lock_returns by blast
  then show "\<exists>r. acquire lk w = Some r"
    by (cases r) (auto simp: acquire_def Let_def split: option.splits)
next
  assume a: "acquire lk w = Some (out, s)"
  then show "\<not> conn_open s"
    by (auto simp: acquire_def Let_def fresh_session_def finally_closes
        split: option.splits sum.splits if_splits)
next
  assume a: "acquire lk w = Some (out, s)"
  then show "\<not> cursor_open s"
    by (auto simp: acquire_def Let_def fresh_session_def finally_closes
        split: option.splits sum.splits if_splits)
next
  assume a: "acquire lk w = Some (out, s)" and h: "lock_held s"
  from a h show "lw_release w \<noteq> None"
    by (auto simp: acquire_def Let_def fresh_session_def finally_lock_not_acquired
        split: option.splits sum.splits if_splits dest: finally_lock_acquired)
  from a h show "release_warning \<in> set (warnings s)"
    by (auto simp: acquire_def Let_def fresh_session_def finally_lock_not_acquired
        split: option.splits sum.splits if_splits dest: finally_lock_acquired)
next
  assume a: "acquire lk w = Some (out, s)" and b: "body_ran s"
  then show "out = lw_body w"
    by (auto simp: acquire_def Let_def fresh_session_def finally_body_ran
        split: option.splits sum.splits if_splits)
next
  assume a: "acquire lk w = Some (out, s)" and b: "\<not> body_ran s"
  show "out \<noteq> None"
  proof (cases "lw_connect w")
    case (Some e)
    with a have "out = Some e" by (auto simp: acquire_def)
    then show ?thesis by simp
  next
    case None
    with a b show ?thesis
      by (auto simp: acquire_def Let_def fresh_session_def finally_body_ran
          split: option.splits sum.splits if_splits)
  qed
  from a b show "\<not> lock_held s"
    by (auto simp: acquire_def Let_def fresh_session_def finally_body_ran
        finally_lock_not_acquired split: option.splits sum.splits if_splits)
next
  assume a: "acquire lk w = Some (out, s)"
    and t: "lw_connect w = None \<and> wait_for_lock lk (lw_start w) (lw_attempts w) = Some (Inr False)"
  from a t show "out = Some timeout_error"
    by (auto simp: acquire_def Let_def)
  from a t show "\<not> body_ran s"
    by (auto simp: acquire_def Let_def fresh_session_def finally_body_ran)
qed

theorem acquire_releases_on_every_exit_witness:
  "acquire \<lparr>lock_key = 42, retry_interval = 1/2, timeout_seconds = 120\<rparr>
      \<lparr>lw_connect = None, lw_start = 0,
       lw_attempts = [(Inr False, 1), (Inr True, 2)],
       lw_release = Some (Error ''connection lost''), lw_body = Some (Error ''boom'')\<rparr>
     = Some (Some (Error ''boom''),
         \<lparr>conn_open = False, cursor_open = False, lock_held = True, body_ran = True,
          warnings = [release_warning]\<rparr>)
   \<and> lw_release \<lparr>lw_connect = None, lw_start = 0,
       lw_attempts = [(Inr False, 1), (Inr True, 2)],
       lw_release = Some (Error ''connection lost''), lw_body = Some (Error ''boom'')\<rparr> \<noteq> None
   \<and> acquire \<lparr>lock_key = 42, retry_interval = 1/2, timeout_seconds = 120\<rparr>
      \<lparr>lw_connect = None, lw_start = 0,
       lw_attempts = [(Inr False, 1), (Inr False, 121)],
       lw_release = None, lw_body = None\<rparr>
     = Some (Some timeout_error,
         \<lparr>conn_open = False, cursor_open = False, lock_held = False, body_ran = False,
          warnings = []\<rparr>)"
  using acquire_releases_on_every_exit
    [of "\<lparr>lw_connect = None, lw_start = 0,
          lw_attempts = [(Inr False, 1), (Inr True, 2)],
          lw_release = Some (Error ''connection lost''), lw_body = Some (Error ''boom'')\<rparr>"
        "\<lparr>lock_key = 42, retry_interval = 1/2, timeout_seconds = 120\<rparr>"
        "Some (Error ''boom'')"
        "\<lparr>conn_open = False, cursor_open = False, lock_held = True, body_ran = True,
          warnings = [release_warning]\<rparr>"]
    acquire_releases_on_every_exit
    [of "\<lparr>lw_connect = None, lw_start = 0,
          lw_attempts = [(Inr False, 1), (Inr False, 121)],
          lw_release = None, lw_body = None\<rparr>"
        "\<lparr>lock_key = 42, retry_interval = 1/2, timeout_seconds = 120\<rparr>"
        "Some timeout_error"
        "\<lparr>conn_open = False, cursor_open = False, lock_held = False, body_ran = False,
          warnings = []\<rparr>"]
  by (simp add: acquire_def fresh_session_def finally_with_cursor_def release_def Let_def)


end
